theory Spec2Isabelle
  imports Main
begin

section \<open>Python values as the tracker sees them\<close>

text \<open>
  Every value the tracker handles comes out of \<^verbatim>\<open>response.json()\<close> or
  \<^verbatim>\<open>json.load\<close>: \<^verbatim>\<open>None\<close>, a bool, an int, a str, a list or a dict with
  string keys. A dict is the list of its items in insertion order (keys distinct).
  JSON numbers with a fraction or an exponent (Python floats) are not part of the model.
  A \<open>string\<close> holds the text as bytes (UTF-8).
\<close>

datatype json =
    JNull
  | JBool bool
  | JInt int
  | JStr string
  | JList "json list"
  | JObj "(string \<times> json) list"

text \<open>The exceptions of the program that no \<^verbatim>\<open>except\<close> clause of it catches.\<close>

datatype py_error = KeyError | AttributeError | TypeError | IndexError

subsection \<open>Truth value, \<^verbatim>\<open>or\<close>, \<^verbatim>\<open>==\<close>\<close>

fun truthy :: "json \<Rightarrow> bool" where
  "truthy JNull = False"
| "truthy (JBool b) = b"
| "truthy (JInt i) = (i \<noteq> 0)"
| "truthy (JStr s) = (s \<noteq> [])"
| "truthy (JList xs) = (xs \<noteq> [])"
| "truthy (JObj kvs) = (kvs \<noteq> [])"

text \<open>\<^verbatim>\<open>a or b\<close>: the first operand when it is true, the second otherwise.\<close>

definition py_or :: "json \<Rightarrow> json \<Rightarrow> json" where
  "py_or a b = (if truthy a then a else b)"

text \<open>
  \<^verbatim>\<open>a == b\<close>. A bool is an int (\<^verbatim>\<open>True == 1\<close>, \<^verbatim>\<open>False == 0\<close>); lists are
  equal elementwise; dicts are equal when they have as many items and every item of the
  left one has an equal value under the same key on the right; values of different
  kinds are unequal.
\<close>

fun py_eq :: "json \<Rightarrow> json \<Rightarrow> bool"
  and py_eq_list :: "json list \<Rightarrow> json list \<Rightarrow> bool"
  and py_eq_items :: "(string \<times> json) list \<Rightarrow> (string \<times> json) list \<Rightarrow> bool"
where
  "py_eq JNull b = (case b of JNull \<Rightarrow> True | _ \<Rightarrow> False)"
| "py_eq (JBool x) b =
     (case b of JBool y \<Rightarrow> x = y | JInt j \<Rightarrow> (if x then 1 else 0) = j | _ \<Rightarrow> False)"
| "py_eq (JInt i) b =
     (case b of JBool y \<Rightarrow> i = (if y then 1 else 0) | JInt j \<Rightarrow> i = j | _ \<Rightarrow> False)"
| "py_eq (JStr s) b = (case b of JStr t \<Rightarrow> s = t | _ \<Rightarrow> False)"
| "py_eq (JList xs) b = (case b of JList ys \<Rightarrow> py_eq_list xs ys | _ \<Rightarrow> False)"
| "py_eq (JObj xs) b =
     (case b of JObj ys \<Rightarrow> length xs = length ys \<and> py_eq_items xs ys | _ \<Rightarrow> False)"
| "py_eq_list [] ys = (ys = [])"
| "py_eq_list (x # xs) ys =
     (case ys of [] \<Rightarrow> False | y # ys' \<Rightarrow> py_eq x y \<and> py_eq_list xs ys')"
| "py_eq_items [] ys = True"
| "py_eq_items (kv # xs) ys =
     ((case map_of ys (fst kv) of None \<Rightarrow> False | Some w \<Rightarrow> py_eq (snd kv) w)
      \<and> py_eq_items xs ys)"

text \<open>\<^verbatim>\<open>a != b\<close>.\<close>

definition py_ne :: "json \<Rightarrow> json \<Rightarrow> bool" where
  "py_ne a b = (\<not> py_eq a b)"

subsection \<open>\<^verbatim>\<open>str\<close> and \<^verbatim>\<open>repr\<close>\<close>

definition digit_char :: "nat \<Rightarrow> char" where
  "digit_char n = ''0123456789abcdef'' ! n"

fun dec :: "nat \<Rightarrow> string" where
  "dec n = (if n < 10 then [digit_char n] else dec (n div 10) @ [digit_char (n mod 10)])"

declare dec.simps [simp del]

definition str_int :: "int \<Rightarrow> string" where
  "str_int i = (if i < 0 then CHR ''-'' # dec (nat (- i)) else dec (nat i))"

text \<open>
  \<^verbatim>\<open>repr\<close> of a str: in single quotes, unless the text has a single quote and no double
  quote; the quote in use and the backslash are escaped, tab, newline and carriage
  return are written \<^verbatim>\<open>\t\<close>, \<^verbatim>\<open>\n\<close>, \<^verbatim>\<open>\r\<close>, every other control character
  \<^verbatim>\<open>\xNN\<close>. Bytes from 128 on are kept: the text outside ASCII is taken to be printable.
\<close>

definition quote_for :: "string \<Rightarrow> char" where
  "quote_for s = (if CHR 0x27 \<in> set s \<and> CHR 0x22 \<notin> set s then CHR 0x22 else CHR 0x27)"

definition escape_char :: "char \<Rightarrow> char \<Rightarrow> string" where
  "escape_char q c =
     (if c = q \<or> c = CHR 0x5C then [CHR 0x5C, c]
      else if c = CHR 0x09 then [CHR 0x5C, CHR ''t'']
      else if c = CHR 0x0A then [CHR 0x5C, CHR ''n'']
      else if c = CHR 0x0D then [CHR 0x5C, CHR ''r'']
      else if (of_char c :: nat) < 32 \<or> (of_char c :: nat) = 127
        then [CHR 0x5C, CHR ''x'', digit_char (of_char c div 16), digit_char (of_char c mod 16)]
      else [c])"

definition repr_str :: "string \<Rightarrow> string" where
  "repr_str s = (let q = quote_for s in [q] @ concat (map (escape_char q) s) @ [q])"

fun py_repr :: "json \<Rightarrow> string"
  and repr_list :: "json list \<Rightarrow> string"
  and repr_items :: "(string \<times> json) list \<Rightarrow> string"
where
  "py_repr JNull = ''None''"
| "py_repr (JBool b) = (if b then ''True'' else ''False'')"
| "py_repr (JInt i) = str_int i"
| "py_repr (JStr s) = repr_str s"
| "py_repr (JList xs) = ''['' @ repr_list xs @ '']''"
| "py_repr (JObj kvs) = ''{'' @ repr_items kvs @ ''}''"
| "repr_list [] = []"
| "repr_list (x # xs) = py_repr x @ (if xs = [] then [] else '', '' @ repr_list xs)"
| "repr_items [] = []"
| "repr_items (kv # xs) =
     repr_str (fst kv) @ '': '' @ py_repr (snd kv) @
     (if xs = [] then [] else '', '' @ repr_items xs)"

text \<open>\<^verbatim>\<open>str(v)\<close>, which is also what an f-string and \<^verbatim>\<open>str.format\<close> put for \<open>v\<close>.\<close>

definition py_str :: "json \<Rightarrow> string" where
  "py_str v = (case v of JStr s \<Rightarrow> s | _ \<Rightarrow> py_repr v)"

subsection \<open>Subscripts, \<^verbatim>\<open>.get\<close>, iteration\<close>

text \<open>\<^verbatim>\<open>v[k]\<close> for a string key \<open>k\<close>: only a dict takes one.\<close>

fun subscript :: "json \<Rightarrow> string \<Rightarrow> py_error + json" where
  "subscript (JObj kvs) k = (case map_of kvs k of None \<Rightarrow> Inl KeyError | Some v \<Rightarrow> Inr v)"
| "subscript _ k = Inl TypeError"

text \<open>\<^verbatim>\<open>v[0]\<close>.\<close>

fun first_item :: "json \<Rightarrow> py_error + json" where
  "first_item (JList xs) = (case xs of [] \<Rightarrow> Inl IndexError | x # _ \<Rightarrow> Inr x)"
| "first_item (JStr s) = (case s of [] \<Rightarrow> Inl IndexError | c # _ \<Rightarrow> Inr (JStr [c]))"
| "first_item (JObj kvs) = Inl KeyError"
| "first_item _ = Inl TypeError"

text \<open>\<^verbatim>\<open>v.get(k, d)\<close>: only a dict has the method.\<close>

fun dict_get :: "json \<Rightarrow> string \<Rightarrow> json \<Rightarrow> py_error + json" where
  "dict_get (JObj kvs) k d = (case map_of kvs k of None \<Rightarrow> Inr d | Some v \<Rightarrow> Inr v)"
| "dict_get _ k d = Inl AttributeError"

text \<open>
  The items a \<^verbatim>\<open>for\<close> loop over \<open>v\<close> visits: the elements of a list, the keys of a
  dict, the characters of a str (here its bytes).
\<close>

fun py_iter :: "json \<Rightarrow> py_error + json list" where
  "py_iter (JList xs) = Inr xs"
| "py_iter (JObj kvs) = Inr (map (\<lambda>kv. JStr (fst kv)) kvs)"
| "py_iter (JStr s) = Inr (map (\<lambda>c. JStr [c]) s)"
| "py_iter _ = Inl TypeError"

section \<open>Assets/Config.py\<close>

definition TEST_USER_ID :: string where
  "TEST_USER_ID = ''1431529325''"

definition COOKIE :: string where
  "COOKIE = ''''"

definition DISCORD_WEBHOOK :: string where
  "DISCORD_WEBHOOK = ''''"

definition CHECK_INTERVAL :: nat where
  "CHECK_INTERVAL = 30"

text \<open>The two URL templates take the text that \<^verbatim>\<open>str.format\<close> puts in the braces.\<close>

definition GAMES_URL :: "string \<Rightarrow> string" where
  "GAMES_URL universe_id = ''https://games.roproxy.com/v1/games?universeIds='' @ universe_id"

definition PRESENCE_URL :: string where
  "PRESENCE_URL = ''https://presence.roproxy.com/v1/presence/users''"

definition USERS_URL :: "string \<Rightarrow> string" where
  "USERS_URL user_id = ''https://users.roproxy.com/v1/users/'' @ user_id"

section \<open>HTTP: sessions, requests, responses\<close>

datatype http_method = HEAD | GET | OPTIONS | POST

text \<open>The arguments given to \<^verbatim>\<open>urllib3.util.retry.Retry\<close>.\<close>

record retry =
  retry_total :: nat
  backoff_factor :: nat
  status_forcelist :: "nat list"
  allowed_methods :: "http_method list"

text \<open>
  A \<^verbatim>\<open>requests.Session\<close>: its cookies, the headers the program puts on it (over the
  library's defaults) and the adapters the program mounts, each under its URL prefix.
\<close>

record session =
  cookies :: "(string \<times> string) list"
  headers :: "(string \<times> string) list"
  adapters :: "(string \<times> retry) list"

text \<open>
  One outbound call. \<open>via\<close> is the session it is issued through, or \<open>None\<close> for a call
  of the module-level \<^verbatim>\<open>requests.post\<close>, which builds a session of its own with the
  library's default adapters and none of the program's.
\<close>

record request =
  via :: "session option"
  meth :: http_method
  url :: string
  payload :: "json option"
  req_headers :: "(string \<times> string) list"
  timeout :: nat

text \<open>
  What a call comes back with: a \<^verbatim>\<open>requests.RequestException\<close> raised by the call
  itself (no connection, a timeout, the retries used up, a URL that is none), or a
  response with its status, its headers (a case-insensitive dict, here a map on the
  lower-case names) and its body as \<^verbatim>\<open>response.json()\<close> reads it (\<open>None\<close> when the
  body is not JSON).
\<close>

datatype response =
    RequestException
  | Response (status_code: nat) (resp_headers: "string \<rightharpoonup> string") (body: "json option")

text \<open>
  The outside world: the answer to the \<open>i\<close>-th call of the run, which may depend on the
  call. The theorems hold for every such network.
\<close>

type_synonym net = "nat \<Rightarrow> request \<Rightarrow> response"

datatype level = INFO | WARNING | ERROR

text \<open>
  The state of the run: \<^verbatim>\<open>last_states\<close> of \<^verbatim>\<open>main\<close>, the calls issued so far, and the
  lines logged so far (each without the text of the exception it ends with).
\<close>

record tracker =
  last_states :: "string \<rightharpoonup> json"
  http_log :: "request list"
  logged :: "(level \<times> string) list"

definition http_call :: "net \<Rightarrow> request \<Rightarrow> tracker \<Rightarrow> response \<times> tracker" where
  "http_call net rq st = (net (length (http_log st)) rq, st\<lparr>http_log := http_log st @ [rq]\<rparr>)"

definition logging :: "level \<Rightarrow> string \<Rightarrow> tracker \<Rightarrow> tracker" where
  "logging lv msg st = st\<lparr>logged := logged st @ [(lv, msg)]\<rparr>"

text \<open>
  \<^verbatim>\<open>response.raise_for_status()\<close> followed by \<^verbatim>\<open>response.json()\<close>, inside a
  \<^verbatim>\<open>try\<close> that catches \<^verbatim>\<open>requests.RequestException\<close>: \<open>None\<close> when one is raised
  (by the call, by a status from 400 to 599, or by a body that is not JSON, whose
  \<^verbatim>\<open>JSONDecodeError\<close> is a \<^verbatim>\<open>RequestException\<close> since requests 2.27).
\<close>

definition checked_json :: "response \<Rightarrow> json option" where
  "checked_json r =
     (case r of
        RequestException \<Rightarrow> None
      | Response s h b \<Rightarrow> (if 400 \<le> s \<and> s < 600 then None else b))"

section \<open>Main.py\<close>

definition retry_strategy :: retry where
  "retry_strategy =
     \<lparr>retry_total = 3, backoff_factor = 1,
      status_forcelist = [429, 500, 502, 503, 504],
      allowed_methods = [HEAD, GET, OPTIONS, POST]\<rparr>"

text \<open>The calls the program issues, as built at each call site.\<close>

definition seed_request :: "session \<Rightarrow> (string \<times> string) list \<Rightarrow> request" where
  "seed_request session hdrs =
     \<lparr>via = Some session, meth = POST, url = PRESENCE_URL,
      payload = Some (JObj [(''userIds'', JList [JStr TEST_USER_ID])]),
      req_headers = hdrs, timeout = 10\<rparr>"

definition presence_request :: "session \<Rightarrow> json \<Rightarrow> request" where
  "presence_request session user_ids =
     \<lparr>via = Some session, meth = POST, url = PRESENCE_URL,
      payload = Some (JObj [(''userIds'', user_ids)]),
      req_headers = [], timeout = 10\<rparr>"

definition games_request :: "session \<Rightarrow> json \<Rightarrow> request" where
  "games_request session universe_id =
     \<lparr>via = Some session, meth = GET, url = GAMES_URL (py_str universe_id),
      payload = None, req_headers = [], timeout = 10\<rparr>"

definition users_request :: "session \<Rightarrow> string \<Rightarrow> request" where
  "users_request session user_id =
     \<lparr>via = Some session, meth = GET, url = USERS_URL user_id,
      payload = None, req_headers = [], timeout = 10\<rparr>"

definition webhook_post :: "json \<Rightarrow> request" where
  "webhook_post embed' =
     \<lparr>via = None, meth = POST, url = DISCORD_WEBHOOK,
      payload = Some (JObj [(''embeds'', JList [embed'])]),
      req_headers = [], timeout = 10\<rparr>"

definition create_authenticated_session :: "net \<Rightarrow> tracker \<Rightarrow> session \<times> tracker" where
  "create_authenticated_session net st =
     (let session = \<lparr>cookies = [(''.ROBLOSECURITY'', COOKIE)], headers = [],
                      adapters = [(''https://'', retry_strategy), (''http://'', retry_strategy)]\<rparr>;
          hdrs = [(''User-Agent'', ''Mozilla/5.0'')];
          (r, st1) = http_call net (seed_request session hdrs) st
      in case r of
           RequestException \<Rightarrow>
             (session\<lparr>headers := hdrs\<rparr>,
              logging WARNING (''CSRF seed request failed ('' @ PRESENCE_URL @ ''): '') st1)
         | Response s h b \<Rightarrow>
             (case (if s = 403 then h ''x-csrf-token'' else None) of
                Some tok \<Rightarrow> (session\<lparr>headers := hdrs @ [(''X-CSRF-TOKEN'', tok)]\<rparr>, st1)
              | None \<Rightarrow> (session\<lparr>headers := hdrs\<rparr>, st1)))"

definition get_presence ::
  "net \<Rightarrow> session \<Rightarrow> json \<Rightarrow> tracker \<Rightarrow> py_error + json \<times> tracker" where
  "get_presence net session user_ids st =
     (let (r, st1) = http_call net (presence_request session user_ids) st
      in case checked_json r of
           None \<Rightarrow>
             Inr (JList [],
                  logging ERROR (''Presence fetch failed ('' @ PRESENCE_URL @ ''): '') st1)
         | Some j \<Rightarrow>
             (case dict_get j ''userPresences'' (JList []) of
                Inl e \<Rightarrow> Inl e
              | Inr v \<Rightarrow> Inr (v, st1)))"

definition get_game_info ::
  "net \<Rightarrow> session \<Rightarrow> json \<Rightarrow> tracker \<Rightarrow> py_error + json \<times> tracker" where
  "get_game_info net session universe_id st =
     (let u = GAMES_URL (py_str universe_id);
          (r, st1) = http_call net (games_request session universe_id) st
      in case checked_json r of
           None \<Rightarrow>
             Inr (JStr ''Unknown Game'',
                  logging WARNING (''Game info fetch failed ('' @ u @ ''): '') st1)
         | Some j \<Rightarrow>
             (case dict_get j ''data'' (JList []) of
                Inl e \<Rightarrow> Inl e
              | Inr data \<Rightarrow>
                  if truthy data then
                    (case first_item data of
                       Inl e \<Rightarrow> Inl e
                     | Inr d0 \<Rightarrow>
                         (case dict_get d0 ''name'' (JStr ''Unknown Game'') of
                            Inl e \<Rightarrow> Inl e
                          | Inr nm \<Rightarrow> Inr (nm, st1)))
                  else Inr (JStr ''Unknown Game'', st1)))"

text \<open>The pair returned is (username, display name); \<^verbatim>\<open>None\<close> is \<open>JNull\<close>.\<close>

definition get_user_info ::
  "net \<Rightarrow> session \<Rightarrow> string \<Rightarrow> tracker \<Rightarrow> py_error + (json \<times> json) \<times> tracker" where
  "get_user_info net session user_id st =
     (let u = USERS_URL user_id;
          (r, st1) = http_call net (users_request session user_id) st
      in case checked_json r of
           None \<Rightarrow>
             Inr ((JNull, JNull),
                  logging WARNING (''User info fetch failed ('' @ u @ ''): '') st1)
         | Some data \<Rightarrow>
             (case dict_get data ''name'' JNull of
                Inl e \<Rightarrow> Inl e
              | Inr nm \<Rightarrow>
                  (case dict_get data ''displayName'' JNull of
                     Inl e \<Rightarrow> Inl e
                   | Inr dn \<Rightarrow> Inr ((nm, dn), st1))))"

text \<open>
  \<^verbatim>\<open>send_webhook\<close> calls \<^verbatim>\<open>requests.post\<close>, not the session. Its \<^verbatim>\<open>try\<close> has no
  \<^verbatim>\<open>response.json()\<close>: only the call and the status can fail.
\<close>

definition send_webhook :: "net \<Rightarrow> json \<Rightarrow> tracker \<Rightarrow> tracker" where
  "send_webhook net embed' st =
     (let (r, st1) = http_call net (webhook_post embed') st
      in case r of
           RequestException \<Rightarrow>
             logging ERROR (''Webhook failed ('' @ DISCORD_WEBHOOK @ ''): '') st1
         | Response s h b \<Rightarrow>
             (if 400 \<le> s \<and> s < 600
              then logging ERROR (''Webhook failed ('' @ DISCORD_WEBHOOK @ ''): '') st1
              else st1))"

definition build_embed_in_game :: "json \<Rightarrow> json \<Rightarrow> json \<Rightarrow> json \<Rightarrow> py_error + json" where
  "build_embed_in_game presence game_name username display_name =
     (case subscript presence ''userId'' of
        Inl e \<Rightarrow> Inl e
      | Inr user_id \<Rightarrow>
     (case dict_get presence ''placeId'' JNull of
        Inl e \<Rightarrow> Inl e
      | Inr place_id \<Rightarrow>
     (case dict_get presence ''gameId'' JNull of
        Inl e \<Rightarrow> Inl e
      | Inr game_id \<Rightarrow>
          if truthy place_id \<and> truthy game_id then
            (let join_url = ''https://www.roblox.com/games/start?placeId='' @ py_str place_id
                            @ ''&gameId='' @ py_str game_id;
                 game_page_url = ''https://www.roblox.com/games/'' @ py_str place_id;
                 title = py_str (py_or display_name username) @ '' is now in-game'';
                 description = ''**'' @ py_str game_name @ ''**''
             in Inr (JObj
                  [(''title'', JStr title),
                   (''color'', JInt 0x00FF00),
                   (''description'', JStr description),
                   (''url'', JStr join_url),
                   (''fields'', JList
                      [JObj [(''name'', JStr ''Join Server''),
                             (''value'', JStr (''[Click Here]('' @ join_url @ '')'')),
                             (''inline'', JBool True)],
                       JObj [(''name'', JStr ''Game Page''),
                             (''value'', JStr (''[View Game]('' @ game_page_url @ '')'')),
                             (''inline'', JBool True)]])]))
          else
            (let title = py_str (py_or display_name username) @ '' is in a game''
             in Inr (JObj
                  [(''title'', JStr title),
                   (''color'', JInt 0x00FFFF),
                   (''description'', JStr ''Joins are off, check badges for hint of game.'')])))))"

text \<open>\<^verbatim>\<open>load_user_ids\<close>: the file is \<open>None\<close> when it cannot be opened or is not JSON.\<close>

definition load_user_ids :: "json option \<Rightarrow> tracker \<Rightarrow> json \<times> tracker" where
  "load_user_ids file st =
     (case file of
        None \<Rightarrow> (JList [], logging ERROR ''Failed to load user IDs: '' st)
      | Some j \<Rightarrow> (j, st))"

text \<open>
  The branch \<^verbatim>\<open>elif state == 2\<close> of the loop body: the game name is fetched only for
  a universe id that is true, the payload is built and sent.
\<close>

definition main_in_game ::
  "net \<Rightarrow> session \<Rightarrow> json \<Rightarrow> json \<Rightarrow> json \<Rightarrow> tracker \<Rightarrow> py_error + tracker" where
  "main_in_game net session presence username display_name st =
     (case dict_get presence ''universeId'' JNull of
        Inl e \<Rightarrow> Inl e
      | Inr universe_id \<Rightarrow>
     (case (if truthy universe_id then get_game_info net session universe_id st
            else Inr (JStr ''Unknown Game'', st)) of
        Inl e \<Rightarrow> Inl e
      | Inr (game_name, st1) \<Rightarrow>
     (case build_embed_in_game presence game_name username display_name of
        Inl e \<Rightarrow> Inl e
      | Inr embed' \<Rightarrow> Inr (send_webhook net embed' st1))))"

text \<open>\<^verbatim>\<open>last_states.get(user_id)\<close>: \<^verbatim>\<open>None\<close> for a user with no entry.\<close>

definition last_state :: "tracker \<Rightarrow> string \<Rightarrow> json" where
  "last_state st user_id = (case last_states st user_id of None \<Rightarrow> JNull | Some v \<Rightarrow> v)"

text \<open>The body of \<^verbatim>\<open>for presence in presences\<close>: one record.\<close>

definition main_body :: "net \<Rightarrow> session \<Rightarrow> tracker \<Rightarrow> json \<Rightarrow> py_error + tracker" where
  "main_body net session st presence =
     (case subscript presence ''userId'' of
        Inl e \<Rightarrow> Inl e
      | Inr uid \<Rightarrow>
     (case dict_get presence ''userPresenceType'' (JInt 0) of
        Inl e \<Rightarrow> Inl e
      | Inr state \<Rightarrow>
          (let user_id = py_str uid in
           if py_ne state (last_state st user_id) then
             (case get_user_info net session user_id st of
                Inl e \<Rightarrow> Inl e
              | Inr ((username, display_name), st1) \<Rightarrow>
             (case (if py_eq state (JInt 0) then
                      Inr (send_webhook net
                        (JObj [(''title'', JStr (py_str (py_or display_name
                                  (py_or username (JStr user_id))) @ '' is Offline'')),
                               (''color'', JInt 0xFF0000)]) st1)
                    else if py_eq state (JInt 1) then
                      Inr (send_webhook net
                        (JObj [(''title'', JStr (py_str (py_or display_name
                                  (py_or username (JStr user_id))) @ '' is Online (not in-game)'')),
                               (''color'', JInt 0xFFFF00)]) st1)
                    else if py_eq state (JInt 2) then
                      main_in_game net session presence username display_name st1
                    else Inr st1) of
                Inl e \<Rightarrow> Inl e
              | Inr st2 \<Rightarrow> Inr (st2\<lparr>last_states := (last_states st2)(user_id \<mapsto> state)\<rparr>)))
           else Inr st)))"

text \<open>The \<^verbatim>\<open>for\<close> loop over the records: an uncaught exception ends it.\<close>

fun main_for :: "net \<Rightarrow> session \<Rightarrow> tracker \<Rightarrow> json list \<Rightarrow> py_error + tracker" where
  "main_for net session st [] = Inr st"
| "main_for net session st (presence # rest) =
     (case main_body net session st presence of
        Inl e \<Rightarrow> Inl e
      | Inr st' \<Rightarrow> main_for net session st' rest)"

text \<open>
  One pass of \<^verbatim>\<open>while True\<close>: the batch fetch, then the loop over what it returned.
  The \<^verbatim>\<open>time.sleep(Config.CHECK_INTERVAL)\<close> that ends the pass changes nothing here.
\<close>

definition main_cycle :: "net \<Rightarrow> session \<Rightarrow> json \<Rightarrow> tracker \<Rightarrow> py_error + tracker" where
  "main_cycle net session user_ids st =
     (case get_presence net session user_ids st of
        Inl e \<Rightarrow> Inl e
      | Inr (presences, st1) \<Rightarrow>
     (case py_iter presences of
        Inl e \<Rightarrow> Inl e
      | Inr records \<Rightarrow> main_for net session st1 records))"

text \<open>
  \<^verbatim>\<open>while True\<close> never ends by itself, so the loop is run for \<open>n\<close> passes: the result
  is the state after the \<open>n\<close>-th one, or the exception that ended the process before.
\<close>

fun main_loop :: "nat \<Rightarrow> net \<Rightarrow> session \<Rightarrow> json \<Rightarrow> tracker \<Rightarrow> py_error + tracker" where
  "main_loop 0 net session user_ids st = Inr st"
| "main_loop (Suc n) net session user_ids st =
     (case main_cycle net session user_ids st of
        Inl e \<Rightarrow> Inl e
      | Inr st' \<Rightarrow> main_loop n net session user_ids st')"

definition start :: tracker where
  "start = \<lparr>last_states = Map.empty, http_log = [], logged = []\<rparr>"

text \<open>
  \<^verbatim>\<open>main\<close>, for \<open>n\<close> passes of its loop, on a network and a users file. With no user
  ids it returns at once.
\<close>

definition main :: "nat \<Rightarrow> net \<Rightarrow> json option \<Rightarrow> py_error + tracker" where
  "main n net file =
     (let (session, st1) = create_authenticated_session net start;
          (user_ids, st2) = load_user_ids file st1
      in if \<not> truthy user_ids then
           Inr (logging ERROR
                 (''No user IDs found'' @ [CHR 0xE2, CHR 0x80, CHR 0x94] @ ''exiting.'') st2)
         else
           main_loop n net session user_ids
             (logging INFO
               (''Roblox Activity Tracker is now running'' @ [CHR 0xE2, CHR 0x80, CHR 0xA6])
               (st2\<lparr>last_states := Map.empty\<rparr>)))"

text \<open>
  The notifications emitted so far: the calls of \<^verbatim>\<open>send_webhook\<close>, which are the only
  ones issued outside the session.
\<close>

definition notifications :: "tracker \<Rightarrow> request list" where
  "notifications st = filter (\<lambda>rq. via rq = None) (http_log st)"

section \<open>Notions the properties are stated with\<close>

text \<open>
  A call fails at the network or HTTP level when it raises, or when its status makes
  \<^verbatim>\<open>raise_for_status\<close> raise.
\<close>

definition http_failure :: "response \<Rightarrow> bool" where
  "http_failure r = (case r of RequestException \<Rightarrow> True | Response s h b \<Rightarrow> 400 \<le> s \<and> s < 600)"

text \<open>
  Replies on which the two fetchers of the loop body do not raise past their
  \<^verbatim>\<open>except\<close>: a failure that is caught, or a JSON object (for the game name, one
  whose \<^verbatim>\<open>data\<close> is missing, false, or a list that starts with an object).
\<close>

definition user_reply_ok :: "response \<Rightarrow> bool" where
  "user_reply_ok r =
     (case checked_json r of
        None \<Rightarrow> True
      | Some j \<Rightarrow> (case j of JObj kvs \<Rightarrow> True | _ \<Rightarrow> False))"

fun data_ok :: "json \<Rightarrow> bool" where
  "data_ok (JList (JObj kvs # xs)) = True"
| "data_ok d = (\<not> truthy d)"

definition game_reply_ok :: "response \<Rightarrow> bool" where
  "game_reply_ok r =
     (case checked_json r of
        None \<Rightarrow> True
      | Some j \<Rightarrow>
          (case j of
             JObj kvs \<Rightarrow> (case map_of kvs ''data'' of None \<Rightarrow> True | Some d \<Rightarrow> data_ok d)
           | _ \<Rightarrow> False))"

definition replies_ok :: "net \<Rightarrow> bool" where
  "replies_ok net =
     ((\<forall>i s u. user_reply_ok (net i (users_request s u))) \<and>
      (\<forall>i s v. game_reply_ok (net i (games_request s v))))"

text \<open>The user a record is about: the key of \<^verbatim>\<open>last_states\<close> the loop body uses.\<close>

definition user_of :: "json \<Rightarrow> string option" where
  "user_of presence =
     (case subscript presence ''userId'' of Inl e \<Rightarrow> None | Inr uid \<Rightarrow> Some (py_str uid))"

text \<open>
  The users the \<^verbatim>\<open>for\<close> loop notifies about, one entry for every notification, in
  order: a notification is about the user of the record in whose turn it is sent.
\<close>

fun notified_users :: "net \<Rightarrow> session \<Rightarrow> tracker \<Rightarrow> json list \<Rightarrow> string list" where
  "notified_users net session st [] = []"
| "notified_users net session st (presence # rest) =
     (case main_body net session st presence of
        Inl e \<Rightarrow> []
      | Inr st' \<Rightarrow>
          (case user_of presence of
             None \<Rightarrow> []
           | Some u \<Rightarrow> replicate (length (notifications st') - length (notifications st)) u)
          @ notified_users net session st' rest)"

text \<open>Two states that differ at most in the lines logged.\<close>

definition same_but_log :: "tracker \<Rightarrow> tracker \<Rightarrow> bool" where
  "same_but_log a b = (last_states a = last_states b \<and> http_log a = http_log b)"

text \<open>Two networks that answer every call of the session alike.\<close>

definition agree_on_session :: "net \<Rightarrow> net \<Rightarrow> bool" where
  "agree_on_session net net' = (\<forall>i rq. via rq \<noteq> None \<longrightarrow> net i rq = net' i rq)"

text \<open>
  A session carries the retry policy when the adapter built from \<open>retry_strategy\<close> is
  what is mounted on its two prefixes; a call is under the policy when it is issued
  through such a session. The calls the program is expected to issue: the POST of
  \<^verbatim>\<open>send_webhook\<close> outside every session, and the four kinds of session calls.
\<close>

definition mounted :: "session \<Rightarrow> bool" where
  "mounted s = (adapters s = [(''https://'', retry_strategy), (''http://'', retry_strategy)])"

definition under_retry_policy :: "request \<Rightarrow> bool" where
  "under_retry_policy rq = (case via rq of None \<Rightarrow> False | Some s \<Rightarrow> mounted s)"

definition expected_call :: "request \<Rightarrow> bool" where
  "expected_call rq =
     (case via rq of
        None \<Rightarrow> (\<exists>e. rq = webhook_post e)
      | Some s \<Rightarrow>
          mounted s \<and>
          ((\<exists>h. rq = seed_request s h) \<or> (\<exists>ids. rq = presence_request s ids) \<or>
           (\<exists>u. rq = users_request s u) \<or> (\<exists>v. rq = games_request s v)))"

section \<open>Sample inputs\<close>

text \<open>
  The session \<^verbatim>\<open>main\<close> works with when the seed request brought no token, a network
  on which every call fails, and one on which every call succeeds: the sink answers 204,
  the presence endpoint reports user 5 online, the users endpoint knows the user as Bob,
  the games endpoint knows the game as Obby.
\<close>

definition plain_session :: session where
  "plain_session =
     \<lparr>cookies = [(''.ROBLOSECURITY'', COOKIE)], headers = [(''User-Agent'', ''Mozilla/5.0'')],
      adapters = [(''https://'', retry_strategy), (''http://'', retry_strategy)]\<rparr>"

definition net_down :: net where
  "net_down = (\<lambda>i rq. RequestException)"

definition net_up :: net where
  "net_up = (\<lambda>i rq.
     if via rq = None then Response 204 Map.empty None
     else if meth rq = POST then
       Response 200 Map.empty
         (Some (JObj [(''userPresences'',
            JList [JObj [(''userId'', JInt 5), (''userPresenceType'', JInt 1)]])]))
     else if take 35 (url rq) = USERS_URL [] then
       Response 200 Map.empty
         (Some (JObj [(''name'', JStr ''bob''), (''displayName'', JStr ''Bob'')]))
     else
       Response 200 Map.empty
         (Some (JObj [(''data'', JList [JObj [(''name'', JStr ''Obby'')]])])))"

text \<open>
  An outage: only the presence endpoint answers (user 5 is in a game of universe 99),
  every other call comes back with status 503. And the same with the sink up.
\<close>

definition net_outage :: net where
  "net_outage = (\<lambda>i rq.
     if via rq \<noteq> None \<and> meth rq = POST then
       Response 200 Map.empty
         (Some (JObj [(''userPresences'',
            JList [JObj [(''userId'', JInt 5), (''userPresenceType'', JInt 2),
                         (''universeId'', JInt 99)]])]))
     else Response 503 Map.empty None)"

definition net_outage_sink_up :: net where
  "net_outage_sink_up = (\<lambda>i rq.
     if via rq = None then Response 204 Map.empty None else net_outage i rq)"

text \<open>
  A state in which user 5 was last seen online, and the network that answers every call
  with status 200 and one given body.
\<close>

definition seen_online :: tracker where
  "seen_online = start\<lparr>last_states := [''5'' \<mapsto> JInt 1]\<rparr>"

definition net_reply :: "json \<Rightarrow> net" where
  "net_reply j = (\<lambda>i rq. Response 200 Map.empty (Some j))"

text \<open>A state in which user 5 was last seen offline and user 7 in a game.\<close>

definition seen_two :: tracker where
  "seen_two = start\<lparr>last_states := [''5'' \<mapsto> JInt 0, ''7'' \<mapsto> JInt 2]\<rparr>"

text \<open>
  Two networks with a reply of an unexpected shape. On the first the users endpoint
  answers 200 with a JSON list (the presence endpoint reports user 5 online). On the
  second the games endpoint answers 200 with a \<^verbatim>\<open>data\<close> list that holds a number
  (the presence endpoint reports user 5 in a game of universe 99, the users endpoint
  knows Bob). The sink answers 204 on both.
\<close>

definition net_users_list :: net where
  "net_users_list = (\<lambda>i rq.
     if via rq = None then Response 204 Map.empty None
     else if meth rq = POST then
       Response 200 Map.empty
         (Some (JObj [(''userPresences'',
            JList [JObj [(''userId'', JInt 5), (''userPresenceType'', JInt 1)]])]))
     else Response 200 Map.empty (Some (JList [])))"

definition net_games_odd :: net where
  "net_games_odd = (\<lambda>i rq.
     if via rq = None then Response 204 Map.empty None
     else if meth rq = POST then
       Response 200 Map.empty
         (Some (JObj [(''userPresences'',
            JList [JObj [(''userId'', JInt 5), (''userPresenceType'', JInt 2),
                         (''universeId'', JInt 99)]])]))
     else if take 35 (url rq) = USERS_URL [] then
       Response 200 Map.empty
         (Some (JObj [(''name'', JStr ''bob''), (''displayName'', JStr ''Bob'')]))
     else
       Response 200 Map.empty (Some (JObj [(''data'', JList [JInt 5])])))"

section \<open>Effects of the single operations\<close>

lemma via_requests [simp]:
  "via (seed_request s hs) = Some s"
  "via (presence_request s ids) = Some s"
  "via (games_request s v) = Some s"
  "via (users_request s u) = Some s"
  "via (webhook_post e) = None"
  by (simp_all add: seed_request_def presence_request_def games_request_def
        users_request_def webhook_post_def)

lemma logging_fields [simp]:
  "last_states (logging lv msg st) = last_states st"
  "http_log (logging lv msg st) = http_log st"
  "logged (logging lv msg st) = logged st @ [(lv, msg)]"
  by (simp_all add: logging_def)

lemma notifications_logging [simp]: "notifications (logging lv msg st) = notifications st"
  by (simp add: notifications_def)

lemma notifications_last_states_update [simp]:
  "notifications (st\<lparr>last_states := m\<rparr>) = notifications st"
  by (simp add: notifications_def)

lemma send_webhook_fields [simp]:
  "last_states (send_webhook net e st) = last_states st"
  "http_log (send_webhook net e st) = http_log st @ [webhook_post e]"
  by (simp_all add: send_webhook_def http_call_def split: response.splits)

lemma notifications_send_webhook [simp]:
  "notifications (send_webhook net e st) = notifications st @ [webhook_post e]"
  by (simp add: notifications_def)

lemma get_user_info_effect:
  assumes "get_user_info net s u st = Inr (res, st1)"
  shows "last_states st1 = last_states st"
    and "http_log st1 = http_log st @ [users_request s u]"
    and "notifications st1 = notifications st"
  using assms
  by (auto simp: get_user_info_def http_call_def notifications_def
      split: option.splits sum.splits)

lemma get_game_info_effect:
  assumes "get_game_info net s v st = Inr (res, st1)"
  shows "last_states st1 = last_states st"
    and "http_log st1 = http_log st @ [games_request s v]"
    and "notifications st1 = notifications st"
  using assms
  by (auto simp: get_game_info_def http_call_def notifications_def
      split: option.splits sum.splits if_splits)

lemma get_presence_effect:
  assumes "get_presence net s ids st = Inr (res, st1)"
  shows "last_states st1 = last_states st"
    and "http_log st1 = http_log st @ [presence_request s ids]"
    and "notifications st1 = notifications st"
  using assms
  by (auto simp: get_presence_def http_call_def notifications_def
      split: option.splits sum.splits)

lemma raisesI:
  assumes "case x of Inl e \<Rightarrow> e = err | Inr y \<Rightarrow> False"
  shows "x = Inl err"
  using assms by (cases x) simp_all

lemma http_failure_checked_json:
  "http_failure r \<Longrightarrow> checked_json r = None"
  by (cases r) (auto simp: http_failure_def checked_json_def)

lemma get_user_info_returns:
  assumes "user_reply_ok (net (length (http_log st)) (users_request s u))"
  shows "\<exists>res st1. get_user_info net s u st = Inr (res, st1)"
  using assms
  by (auto simp: get_user_info_def http_call_def user_reply_ok_def
      split: option.splits json.splits)

lemma data_ok_first_item:
  assumes "data_ok d" and "truthy d"
  shows "\<exists>kvs. first_item d = Inr (JObj kvs)"
  using assms by (cases d rule: data_ok.cases) auto

lemma get_game_info_returns:
  assumes "game_reply_ok (net (length (http_log st)) (games_request s v))"
  shows "\<exists>res st1. get_game_info net s v st = Inr (res, st1)"
proof (cases "checked_json (net (length (http_log st)) (games_request s v))")
  case None
  then show ?thesis by (simp add: get_game_info_def http_call_def)
next
  case (Some j)
  with assms obtain kvs where j: "j = JObj kvs"
    by (auto simp: game_reply_ok_def split: json.splits)
  show ?thesis
  proof (cases "map_of kvs ''data''")
    case None
    with Some j show ?thesis by (simp add: get_game_info_def http_call_def)
  next
    case (Some d)
    with assms \<open>checked_json _ = Some j\<close> j have ok: "data_ok d"
      by (simp add: game_reply_ok_def)
    show ?thesis
    proof (cases "truthy d")
      case True
      with ok obtain kvs' where "first_item d = Inr (JObj kvs')"
        using data_ok_first_item by blast
      with True Some \<open>checked_json _ = Some j\<close> j show ?thesis
        by (simp add: get_game_info_def http_call_def split: option.splits)
    next
      case False
      with Some \<open>checked_json _ = Some j\<close> j show ?thesis
        by (simp add: get_game_info_def http_call_def)
    qed
  qed
qed

lemma subscript_Inr_obj:
  assumes "subscript presence k = Inr v"
  obtains kvs where "presence = JObj kvs" and "map_of kvs k = Some v"
  using assms by (cases presence) (auto split: option.splits)

lemma build_embed_in_game_returns:
  assumes "subscript presence ''userId'' = Inr uid"
  shows "\<exists>e. build_embed_in_game presence g un dn = Inr e"
proof -
  from assms obtain kvs where "presence = JObj kvs" by (rule subscript_Inr_obj)
  with assms show ?thesis
    by (auto simp: build_embed_in_game_def Let_def split: option.splits)
qed

lemma main_in_game_returns:
  assumes uid: "subscript presence ''userId'' = Inr uid"
    and ok: "replies_ok net"
  shows "\<exists>e st1. main_in_game net s presence un dn st = Inr (send_webhook net e st1)
           \<and> last_states st1 = last_states st \<and> notifications st1 = notifications st"
proof -
  from uid obtain kvs where p: "presence = JObj kvs" by (rule subscript_Inr_obj)
  then obtain universe_id where u: "dict_get presence ''universeId'' JNull = Inr universe_id"
    by (cases "map_of kvs ''universeId''") auto
  have "\<exists>g st1. (if truthy universe_id then get_game_info net s universe_id st
                  else Inr (JStr ''Unknown Game'', st)) = Inr (g, st1)
          \<and> last_states st1 = last_states st \<and> notifications st1 = notifications st"
  proof (cases "truthy universe_id")
    case True
    from ok have "game_reply_ok (net (length (http_log st)) (games_request s universe_id))"
      by (simp add: replies_ok_def)
    then obtain g st1 where "get_game_info net s universe_id st = Inr (g, st1)"
      using get_game_info_returns by blast
    with True show ?thesis using get_game_info_effect by auto
  next
    case False
    then show ?thesis by simp
  qed
  then obtain g st1 where g:
    "(if truthy universe_id then get_game_info net s universe_id st
      else Inr (JStr ''Unknown Game'', st)) = Inr (g, st1)"
    "last_states st1 = last_states st" "notifications st1 = notifications st"
    by blast
  from uid obtain e where "build_embed_in_game presence g un dn = Inr e"
    using build_embed_in_game_returns by blast
  with u g show ?thesis
    by (auto simp: main_in_game_def)
qed

text \<open>What the loop body does with one record, case by case.\<close>

lemma main_body_same:
  assumes "subscript presence ''userId'' = Inr uid"
    and "dict_get presence ''userPresenceType'' (JInt 0) = Inr state"
    and "\<not> py_ne state (last_state st (py_str uid))"
  shows "main_body net s st presence = Inr st"
  using assms by (simp add: main_body_def)

lemma main_body_changed:
  assumes uid: "subscript presence ''userId'' = Inr uid"
    and state: "dict_get presence ''userPresenceType'' (JInt 0) = Inr state"
    and ne: "py_ne state (last_state st (py_str uid))"
    and ok: "replies_ok net"
  shows "\<exists>st2 new. main_body net s st presence
            = Inr (st2\<lparr>last_states := (last_states st)(py_str uid \<mapsto> state)\<rparr>)
          \<and> last_states st2 = last_states st
          \<and> notifications st2 = notifications st @ new
          \<and> length new = (if py_eq state (JInt 0) \<or> py_eq state (JInt 1) \<or> py_eq state (JInt 2)
                           then 1 else 0)"
proof -
  from ok have "user_reply_ok (net (length (http_log st)) (users_request s (py_str uid)))"
    by (simp add: replies_ok_def)
  then obtain un dn st1 where info: "get_user_info net s (py_str uid) st = Inr ((un, dn), st1)"
    using get_user_info_returns by fastforce
  then have st1: "last_states st1 = last_states st" "notifications st1 = notifications st"
    using get_user_info_effect by blast+
  consider (off) "py_eq state (JInt 0)"
    | (on) "\<not> py_eq state (JInt 0)" "py_eq state (JInt 1)"
    | (game) "\<not> py_eq state (JInt 0)" "\<not> py_eq state (JInt 1)" "py_eq state (JInt 2)"
    | (other) "\<not> py_eq state (JInt 0)" "\<not> py_eq state (JInt 1)" "\<not> py_eq state (JInt 2)"
    by blast
  then show ?thesis
  proof cases
    case off
    define e where "e = JObj [(''title'', JStr (py_str (py_or dn (py_or un (JStr (py_str uid))))
                                 @ '' is Offline'')), (''color'', JInt 0xFF0000)]"
    from off uid state ne info st1 have "main_body net s st presence
        = Inr ((send_webhook net e st1)\<lparr>last_states := (last_states st)(py_str uid \<mapsto> state)\<rparr>)"
      by (simp add: main_body_def Let_def e_def)
    with off st1 show ?thesis
      by (intro exI[of _ "send_webhook net e st1"] exI[of _ "[webhook_post e]"]) simp
  next
    case on
    define e where "e = JObj [(''title'', JStr (py_str (py_or dn (py_or un (JStr (py_str uid))))
                                 @ '' is Online (not in-game)'')), (''color'', JInt 0xFFFF00)]"
    from on uid state ne info st1 have "main_body net s st presence
        = Inr ((send_webhook net e st1)\<lparr>last_states := (last_states st)(py_str uid \<mapsto> state)\<rparr>)"
      by (simp add: main_body_def Let_def e_def)
    with on st1 show ?thesis
      by (intro exI[of _ "send_webhook net e st1"] exI[of _ "[webhook_post e]"]) simp
  next
    case game
    from main_in_game_returns[OF uid ok] obtain e st1' where g:
      "main_in_game net s presence un dn st1 = Inr (send_webhook net e st1')"
      "last_states st1' = last_states st1" "notifications st1' = notifications st1"
      by blast
    with game uid state ne info st1 have "main_body net s st presence
        = Inr ((send_webhook net e st1')\<lparr>last_states := (last_states st)(py_str uid \<mapsto> state)\<rparr>)"
      by (simp add: main_body_def Let_def)
    with game st1 g show ?thesis
      by (intro exI[of _ "send_webhook net e st1'"] exI[of _ "[webhook_post e]"]) simp
  next
    case other
    with uid state ne info st1 have "main_body net s st presence
        = Inr (st1\<lparr>last_states := (last_states st)(py_str uid \<mapsto> state)\<rparr>)"
      by (simp add: main_body_def Let_def)
    with other st1 show ?thesis
      by (intro exI[of _ st1] exI[of _ "[]"]) simp
  qed
qed

lemma replies_ok_net_down: "replies_ok net_down"
  by (simp add: replies_ok_def net_down_def user_reply_ok_def game_reply_ok_def checked_json_def)

lemma replies_ok_net_up: "replies_ok net_up"
  by (simp add: replies_ok_def net_up_def user_reply_ok_def game_reply_ok_def checked_json_def
      users_request_def games_request_def USERS_URL_def GAMES_URL_def)

lemma known_state_differs_from_None:
  assumes "py_eq state (JInt 0) \<or> py_eq state (JInt 1) \<or> py_eq state (JInt 2)"
  shows "py_ne state JNull"
  using assms by (cases state) (auto simp: py_ne_def)

section \<open>When a notification is emitted\<close>

text \<open>
  C1, as the code has it. For a record with a user id, on a network whose replies make
  no fetcher raise, the loop body returns, keeps the notifications emitted before and
  adds exactly one when the observed state differs from \<^verbatim>\<open>last_states.get(user)\<close>
  (\<^verbatim>\<open>None\<close> for a user with no entry) and equals 0, 1 or 2; it adds none otherwise:
  not for a repeated state, and not for a state that is none of the three. The first
  observation of a user in one of the three states emits exactly one.
\<close>

theorem notification_iff_change_to_known_state:
  assumes "replies_ok net"
    and "subscript presence ''userId'' = Inr uid"
    and "dict_get presence ''userPresenceType'' (JInt 0) = Inr state"
  shows "\<exists>st' new. main_body net s st presence = Inr st'
           \<and> notifications st' = notifications st @ new
           \<and> length new =
               (if py_ne state (last_state st (py_str uid))
                   \<and> (py_eq state (JInt 0) \<or> py_eq state (JInt 1) \<or> py_eq state (JInt 2))
                then 1 else 0)
           \<and> (last_states st (py_str uid) = None
                   \<and> (py_eq state (JInt 0) \<or> py_eq state (JInt 1) \<or> py_eq state (JInt 2))
               \<longrightarrow> length new = 1)"
proof (cases "py_ne state (last_state st (py_str uid))")
  case True
  from main_body_changed[OF assms(2,3) True assms(1)] obtain st2 new where
    "main_body net s st presence
       = Inr (st2\<lparr>last_states := (last_states st)(py_str uid \<mapsto> state)\<rparr>)"
    "notifications st2 = notifications st @ new"
    "length new = (if py_eq state (JInt 0) \<or> py_eq state (JInt 1) \<or> py_eq state (JInt 2)
                   then 1 else 0)"
    by blast
  with True show ?thesis by auto
next
  case False
  then have "main_body net s st presence = Inr st"
    using assms main_body_same by blast
  moreover have "\<not> (last_states st (py_str uid) = None
      \<and> (py_eq state (JInt 0) \<or> py_eq state (JInt 1) \<or> py_eq state (JInt 2)))"
    using False known_state_differs_from_None by (auto simp: last_state_def)
  ultimately show ?thesis using False by auto
qed

text \<open>
  The theorem at a first observation: user 5, never seen, is reported online; one
  notification is emitted.
\<close>

theorem notification_iff_change_witness:
  "replies_ok net_up
   \<and> subscript (JObj [(''userId'', JInt 5), (''userPresenceType'', JInt 1)]) ''userId''
       = Inr (JInt 5)
   \<and> dict_get (JObj [(''userId'', JInt 5), (''userPresenceType'', JInt 1)])
        ''userPresenceType'' (JInt 0) = Inr (JInt 1)
   \<and> (\<exists>st' new.
         main_body net_up plain_session start
           (JObj [(''userId'', JInt 5), (''userPresenceType'', JInt 1)]) = Inr st'
         \<and> notifications st' = notifications start @ new
         \<and> length new = 1)"
proof -
  let ?p = "JObj [(''userId'', JInt 5), (''userPresenceType'', JInt 1)]"
  have ok: "replies_ok net_up" by (rule replies_ok_net_up)
  have uid: "subscript ?p ''userId'' = Inr (JInt 5)" by simp
  have state: "dict_get ?p ''userPresenceType'' (JInt 0) = Inr (JInt 1)" by simp
  have ne: "py_ne (JInt 1) (last_state start (py_str (JInt 5)))" by code_simp
  from notification_iff_change_to_known_state[OF ok uid state, of plain_session start] ne
  show ?thesis using ok by auto
qed

text \<open>
  C1 as stated fails: user 5, never seen, is reported in state 3. The state differs from
  the absent entry, the profile is fetched, the entry becomes 3, and no notification is
  emitted.
\<close>

theorem unknown_state_emits_nothing:
  "py_ne (JInt 3) (last_state start ''5'') \<and> last_states start ''5'' = None \<and>
   (case main_body net_up plain_session start
           (JObj [(''userId'', JInt 5), (''userPresenceType'', JInt 3)]) of
      Inl e \<Rightarrow> False
    | Inr st' \<Rightarrow> notifications st' = notifications start \<and> last_states st' ''5'' = Some (JInt 3))"
  by code_simp

section \<open>The update of the table\<close>

lemma rel_sum_eqE:
  assumes "rel_sum (=) R x y"
  obtains (err) e where "x = Inl e" and "y = Inl e"
    | (ok) u v where "x = Inr u" and "y = Inr v" and "R u v"
  using assms by (auto simp: rel_sum.simps)

lemma same_but_log_refl [simp]: "same_but_log st st"
  by (simp add: same_but_log_def)

lemma last_state_same:
  "same_but_log a b \<Longrightarrow> last_state a u = last_state b u"
  by (simp add: same_but_log_def last_state_def)

lemma send_webhook_same:
  "same_but_log a b \<Longrightarrow> same_but_log (send_webhook net e a) (send_webhook net' e b)"
  by (simp add: same_but_log_def)

lemma session_reply_same:
  assumes "agree_on_session net net'" and "same_but_log a b" and "via rq \<noteq> None"
  shows "net (length (http_log a)) rq = net' (length (http_log b)) rq"
  using assms by (simp add: agree_on_session_def same_but_log_def)

lemma get_user_info_same:
  assumes "agree_on_session net net'" and "same_but_log a b"
  shows "rel_sum (=) (rel_prod (=) same_but_log)
           (get_user_info net s u a) (get_user_info net' s u b)"
proof -
  have "net (length (http_log a)) (users_request s u)
        = net' (length (http_log b)) (users_request s u)"
    using assms by (intro session_reply_same) simp_all
  with assms(2) show ?thesis
    by (auto simp: get_user_info_def http_call_def same_but_log_def logging_def
        split: option.splits sum.splits)
qed

lemma get_game_info_same:
  assumes "agree_on_session net net'" and "same_but_log a b"
  shows "rel_sum (=) (rel_prod (=) same_but_log)
           (get_game_info net s v a) (get_game_info net' s v b)"
proof -
  have "net (length (http_log a)) (games_request s v)
        = net' (length (http_log b)) (games_request s v)"
    using assms by (intro session_reply_same) simp_all
  with assms(2) show ?thesis
    by (auto simp: get_game_info_def http_call_def same_but_log_def logging_def
        split: option.splits sum.splits)
qed

lemma get_presence_same:
  assumes "agree_on_session net net'" and "same_but_log a b"
  shows "rel_sum (=) (rel_prod (=) same_but_log)
           (get_presence net s ids a) (get_presence net' s ids b)"
proof -
  have "net (length (http_log a)) (presence_request s ids)
        = net' (length (http_log b)) (presence_request s ids)"
    using assms by (intro session_reply_same) simp_all
  with assms(2) show ?thesis
    by (auto simp: get_presence_def http_call_def same_but_log_def logging_def
        split: option.splits sum.splits)
qed

lemma main_in_game_same:
  assumes "agree_on_session net net'" and "same_but_log a b"
  shows "rel_sum (=) same_but_log
           (main_in_game net s p un dn a) (main_in_game net' s p un dn b)"
proof (cases "dict_get p ''universeId'' JNull")
  case (Inl e)
  then show ?thesis by (simp add: main_in_game_def)
next
  case (Inr v)
  show ?thesis
  proof (cases "truthy v")
    case True
    from get_game_info_same[OF assms, of s v] Inr True show ?thesis
      by (auto simp: main_in_game_def rel_sum.simps send_webhook_same split: sum.splits)
  next
    case False
    with Inr assms(2) show ?thesis
      by (auto simp: main_in_game_def send_webhook_same split: sum.splits)
  qed
qed

lemma main_body_same_but_log:
  assumes "agree_on_session net net'" and "same_but_log a b"
  shows "rel_sum (=) same_but_log (main_body net s a p) (main_body net' s b p)"
proof (cases "subscript p ''userId''")
  case (Inl e)
  then show ?thesis by (simp add: main_body_def)
next
  case uid: (Inr uid)
  show ?thesis
  proof (cases "dict_get p ''userPresenceType'' (JInt 0)")
    case (Inl e)
    with uid show ?thesis by (simp add: main_body_def)
  next
    case state: (Inr state)
    have ls: "last_state a (py_str uid) = last_state b (py_str uid)"
      using assms(2) by (rule last_state_same)
    show ?thesis
    proof (cases "py_ne state (last_state b (py_str uid))")
      case False
      with uid state ls assms(2) show ?thesis by (simp add: main_body_def)
    next
      case True
      have tab: "last_states a = last_states b" using assms(2) by (simp add: same_but_log_def)
      from get_user_info_same[OF assms, of s "py_str uid"] show ?thesis
      proof (cases rule: rel_sum_eqE)
        case (err e)
        with uid state ls True show ?thesis by (simp add: main_body_def)
      next
        case (ok r r')
        then obtain un dn a1 b1 where r: "r = ((un, dn), a1)" "r' = ((un, dn), b1)"
          and s1: "same_but_log a1 b1"
          by (cases r; cases r') auto
        from main_in_game_same[OF assms(1) s1, of s p un dn]
        have "rel_sum (=) same_but_log
                (case main_in_game net s p un dn a1 of Inl e \<Rightarrow> Inl e
                 | Inr st2 \<Rightarrow> Inr (st2\<lparr>last_states := (last_states st2)(py_str uid \<mapsto> state)\<rparr>))
                (case main_in_game net' s p un dn b1 of Inl e \<Rightarrow> Inl e
                 | Inr st2 \<Rightarrow> Inr (st2\<lparr>last_states := (last_states st2)(py_str uid \<mapsto> state)\<rparr>))"
          by (cases rule: rel_sum_eqE) (simp_all add: same_but_log_def)
        with ok r s1 uid state ls True show ?thesis
          by (simp add: main_body_def Let_def same_but_log_def)
      qed
    qed
  qed
qed

lemma main_for_same:
  assumes "agree_on_session net net'" and "same_but_log a b"
  shows "rel_sum (=) same_but_log (main_for net s a ps) (main_for net' s b ps)"
  using assms(2)
proof (induction ps arbitrary: a b)
  case Nil
  then show ?case by simp
next
  case (Cons p ps)
  from main_body_same_but_log[OF assms(1) Cons.prems, of s p] show ?case
    by (cases rule: rel_sum_eqE) (simp_all add: Cons.IH)
qed

lemma main_cycle_same:
  assumes "agree_on_session net net'" and "same_but_log a b"
  shows "rel_sum (=) same_but_log (main_cycle net s ids a) (main_cycle net' s ids b)"
  using get_presence_same[OF assms, of s ids]
proof (cases rule: rel_sum_eqE)
  case (err e)
  then show ?thesis by (simp add: main_cycle_def)
next
  case (ok r r')
  then obtain ps a1 b1 where "r = (ps, a1)" "r' = (ps, b1)" "same_but_log a1 b1"
    by (cases r; cases r') auto
  with ok show ?thesis
    by (cases "py_iter ps") (simp_all add: main_cycle_def main_for_same[OF assms(1)])
qed

lemma main_loop_same:
  assumes "agree_on_session net net'" and "same_but_log a b"
  shows "rel_sum (=) same_but_log (main_loop n net s ids a) (main_loop n net' s ids b)"
  using assms(2)
proof (induction n arbitrary: a b)
  case 0
  then show ?case by simp
next
  case (Suc n)
  from main_cycle_same[OF assms(1) Suc.prems, of s ids] show ?case
    by (cases rule: rel_sum_eqE) (simp_all add: Suc.IH)
qed


lemma failing_replies_ok:
  assumes "\<And>i rq. http_failure (net i rq)"
  shows "replies_ok net"
proof -
  have "checked_json (net i rq) = None" for i rq
    using assms[of i rq] by (cases "net i rq") (auto simp: http_failure_def checked_json_def)
  then show ?thesis
    by (simp add: replies_ok_def user_reply_ok_def game_reply_ok_def)
qed

lemma replies_ok_net_outage: "replies_ok net_outage"
  by (simp add: replies_ok_def net_outage_def user_reply_ok_def game_reply_ok_def
      checked_json_def users_request_def games_request_def)

lemma agree_net_outage: "agree_on_session net_outage net_outage_sink_up"
  by (simp add: agree_on_session_def net_outage_sink_up_def)

text \<open>
  What holds of the update. On a network whose replies make no fetcher raise, a record
  whose state differs from the entry of its user is processed to the end, and
  afterwards the entry is the new state; every failure that a fetcher turns into its
  fallback is such a reply (\<open>failing_replies_ok\<close>). And what the sink answers changes
  nothing but the log: for two networks that differ only there, the loop ends after any
  number of passes with the same exception, or with the same table and the same calls
  issued.
\<close>

lemma table_updated_whatever_fails:
  "(replies_ok net \<and> subscript presence ''userId'' = Inr uid
      \<and> dict_get presence ''userPresenceType'' (JInt 0) = Inr state
      \<and> py_ne state (last_state st (py_str uid))
    \<longrightarrow> (\<exists>st'. main_body net s st presence = Inr st'
              \<and> last_states st' = (last_states st)(py_str uid \<mapsto> state)))
   \<and> (agree_on_session net net'
    \<longrightarrow> rel_sum (=) same_but_log
          (main_loop n net s ids st) (main_loop n net' s ids st))"
proof (intro conjI impI)
  assume h: "replies_ok net \<and> subscript presence ''userId'' = Inr uid
      \<and> dict_get presence ''userPresenceType'' (JInt 0) = Inr state
      \<and> py_ne state (last_state st (py_str uid))"
  then obtain st2 where
    "main_body net s st presence
       = Inr (st2\<lparr>last_states := (last_states st)(py_str uid \<mapsto> state)\<rparr>)"
    using main_body_changed[of presence uid state st net s] by blast
  then show "\<exists>st'. main_body net s st presence = Inr st'
              \<and> last_states st' = (last_states st)(py_str uid \<mapsto> state)"
    by simp
next
  assume "agree_on_session net net'"
  then show "rel_sum (=) same_but_log (main_loop n net s ids st) (main_loop n net' s ids st)"
    by (rule main_loop_same) simp
qed

text \<open>
  The lemma during an outage: only the presence endpoint answers, user 5 is reported
  in a game, the profile fetch, the game-name fetch and the delivery all fail with 503;
  the entry becomes 2. With the sink up instead, two passes end in the same table.
\<close>

lemma table_updated_whatever_fails_witness:
  "http_failure (net_outage 0 (users_request plain_session ''5''))
   \<and> http_failure (net_outage 1 (games_request plain_session (JInt 99)))
   \<and> http_failure (net_outage 2 (webhook_post
         (JObj [(''title'', JStr ''None is in a game''), (''color'', JInt 0x00FFFF),
                (''description'', JStr ''Joins are off, check badges for hint of game.'')])))
   \<and> replies_ok net_outage
   \<and> subscript (JObj [(''userId'', JInt 5), (''userPresenceType'', JInt 2),
                       (''universeId'', JInt 99)]) ''userId'' = Inr (JInt 5)
   \<and> dict_get (JObj [(''userId'', JInt 5), (''userPresenceType'', JInt 2),
                      (''universeId'', JInt 99)]) ''userPresenceType'' (JInt 0) = Inr (JInt 2)
   \<and> py_ne (JInt 2) (last_state start (py_str (JInt 5)))
   \<and> (\<exists>st'. main_body net_outage plain_session start
               (JObj [(''userId'', JInt 5), (''userPresenceType'', JInt 2),
                      (''universeId'', JInt 99)]) = Inr st'
           \<and> last_states st' = (last_states start)(py_str (JInt 5) \<mapsto> JInt 2))
   \<and> agree_on_session net_outage net_outage_sink_up
   \<and> rel_sum (=) same_but_log
        (main_loop 2 net_outage plain_session (JList [JStr ''5'']) start)
        (main_loop 2 net_outage_sink_up plain_session (JList [JStr ''5'']) start)"
proof -
  let ?p = "JObj [(''userId'', JInt 5), (''userPresenceType'', JInt 2), (''universeId'', JInt 99)]"
  have f: "http_failure (net_outage 0 (users_request plain_session ''5''))"
    "http_failure (net_outage 1 (games_request plain_session (JInt 99)))"
    "http_failure (net_outage 2 (webhook_post
       (JObj [(''title'', JStr ''None is in a game''), (''color'', JInt 0x00FFFF),
              (''description'', JStr ''Joins are off, check badges for hint of game.'')])))"
    by (simp_all add: http_failure_def net_outage_def users_request_def games_request_def)
  have ok: "replies_ok net_outage" by (rule replies_ok_net_outage)
  have uid: "subscript ?p ''userId'' = Inr (JInt 5)" by simp
  have state: "dict_get ?p ''userPresenceType'' (JInt 0) = Inr (JInt 2)" by simp
  have ne: "py_ne (JInt 2) (last_state start (py_str (JInt 5)))" by code_simp
  have ag: "agree_on_session net_outage net_outage_sink_up" by (rule agree_net_outage)
  from table_updated_whatever_fails[of net_outage ?p "JInt 5" "JInt 2" start plain_session
      net_outage_sink_up 2 "JList [JStr ''5'']"]
  show ?thesis using f ok uid state ne ag by blast
qed

text \<open>
  C2 on the code. The update is not unconditional: a fetch can fail in a way its
  \<^verbatim>\<open>except\<close> does not catch, and then the statement that updates the table is never
  reached. User 5, never seen, is reported online and the users endpoint answers 200
  with a JSON list: the state differs, \<^verbatim>\<open>get_user_info\<close> raises
  \<^verbatim>\<open>AttributeError\<close> at \<^verbatim>\<open>data.get\<close>, the loop body and \<^verbatim>\<open>main\<close> end with it, and
  no entry is written. The same for user 5 reported in a game when the games endpoint
  answers 200 with a \<^verbatim>\<open>data\<close> list that holds a number: \<^verbatim>\<open>get_game_info\<close> raises
  at \<^verbatim>\<open>data[0].get\<close>.
\<close>

theorem shape_error_skips_table_update:
  "py_ne (JInt 1) (last_state start ''5'')
   \<and> get_user_info net_users_list plain_session ''5'' start = Inl AttributeError
   \<and> main_body net_users_list plain_session start
        (JObj [(''userId'', JInt 5), (''userPresenceType'', JInt 1)]) = Inl AttributeError
   \<and> main 1 net_users_list (Some (JList [JStr ''5''])) = Inl AttributeError
   \<and> py_ne (JInt 2) (last_state start ''5'')
   \<and> get_game_info net_games_odd plain_session (JInt 99)
        (start\<lparr>http_log := [users_request plain_session ''5'']\<rparr>) = Inl AttributeError
   \<and> main_body net_games_odd plain_session start
        (JObj [(''userId'', JInt 5), (''userPresenceType'', JInt 2), (''universeId'', JInt 99)])
       = Inl AttributeError
   \<and> main 1 net_games_odd (Some (JList [JStr ''5''])) = Inl AttributeError"
proof (intro conjI)
  show "py_ne (JInt 1) (last_state start ''5'')" by code_simp
  show "get_user_info net_users_list plain_session ''5'' start = Inl AttributeError"
    by (rule raisesI) code_simp
  show "main_body net_users_list plain_session start
        (JObj [(''userId'', JInt 5), (''userPresenceType'', JInt 1)]) = Inl AttributeError"
    by (rule raisesI) code_simp
  show "main 1 net_users_list (Some (JList [JStr ''5''])) = Inl AttributeError"
    by (rule raisesI) code_simp
  show "py_ne (JInt 2) (last_state start ''5'')" by code_simp
  show "get_game_info net_games_odd plain_session (JInt 99)
        (start\<lparr>http_log := [users_request plain_session ''5'']\<rparr>) = Inl AttributeError"
    by (rule raisesI) code_simp
  show "main_body net_games_odd plain_session start
        (JObj [(''userId'', JInt 5), (''userPresenceType'', JInt 2), (''universeId'', JInt 99)])
       = Inl AttributeError"
    by (rule raisesI) code_simp
  show "main 1 net_games_odd (Some (JList [JStr ''5''])) = Inl AttributeError"
    by (rule raisesI) code_simp
qed

section \<open>The in-game payload\<close>

text \<open>
  C3, as the code has it. The test is \<^verbatim>\<open>if place_id and game_id\<close>: for a record with
  a user id, when the place id and the game id are both true (present, and not
  \<^verbatim>\<open>None\<close>, 0, \<^verbatim>\<open>False\<close> or empty) the payload has the join link
  \<^verbatim>\<open>.../start?placeId=<placeId>&gameId=<gameId>\<close> as its \<^verbatim>\<open>url\<close> and the two
  fields Join Server and Game Page; when either is missing or false the payload is the
  private-join variant, with neither a \<^verbatim>\<open>url\<close> nor \<^verbatim>\<open>fields\<close>.
\<close>

theorem join_link_iff_both_ids_true:
  assumes "subscript presence ''userId'' = Inr uid"
    and "dict_get presence ''placeId'' JNull = Inr place_id"
    and "dict_get presence ''gameId'' JNull = Inr game_id"
  shows "\<exists>e. build_embed_in_game presence game_name username display_name = Inr e \<and>
     (if truthy place_id \<and> truthy game_id then
        subscript e ''url''
          = Inr (JStr (''https://www.roblox.com/games/start?placeId='' @ py_str place_id
                       @ ''&gameId='' @ py_str game_id))
        \<and> subscript e ''fields''
          = Inr (JList
              [JObj [(''name'', JStr ''Join Server''),
                     (''value'', JStr (''[Click Here](https://www.roblox.com/games/start?placeId=''
                        @ py_str place_id @ ''&gameId='' @ py_str game_id @ '')'')),
                     (''inline'', JBool True)],
               JObj [(''name'', JStr ''Game Page''),
                     (''value'', JStr (''[View Game](https://www.roblox.com/games/''
                        @ py_str place_id @ '')'')),
                     (''inline'', JBool True)]])
      else
        e = JObj [(''title'', JStr (py_str (py_or display_name username) @ '' is in a game'')),
                  (''color'', JInt 0x00FFFF),
                  (''description'', JStr ''Joins are off, check badges for hint of game.'')]
        \<and> subscript e ''url'' = Inl KeyError
        \<and> subscript e ''fields'' = Inl KeyError)"
  using assms by (simp add: build_embed_in_game_def Let_def)

text \<open>The theorem on the record of the spec's scenario: place 10, game 20.\<close>

theorem join_link_iff_both_ids_true_witness:
  "subscript (JObj [(''userId'', JStr ''5''), (''userPresenceType'', JInt 2), (''placeId'', JInt 10),
                    (''gameId'', JInt 20), (''universeId'', JInt 99)]) ''userId'' = Inr (JStr ''5'')
   \<and> dict_get (JObj [(''userId'', JStr ''5''), (''userPresenceType'', JInt 2), (''placeId'', JInt 10),
                    (''gameId'', JInt 20), (''universeId'', JInt 99)]) ''placeId'' JNull = Inr (JInt 10)
   \<and> dict_get (JObj [(''userId'', JStr ''5''), (''userPresenceType'', JInt 2), (''placeId'', JInt 10),
                    (''gameId'', JInt 20), (''universeId'', JInt 99)]) ''gameId'' JNull = Inr (JInt 20)
   \<and> (\<exists>e. build_embed_in_game
              (JObj [(''userId'', JStr ''5''), (''userPresenceType'', JInt 2), (''placeId'', JInt 10),
                     (''gameId'', JInt 20), (''universeId'', JInt 99)])
              (JStr ''Obby'') (JStr ''bob'') (JStr ''Bob'') = Inr e
          \<and> subscript e ''url''
              = Inr (JStr ''https://www.roblox.com/games/start?placeId=10&gameId=20''))"
proof -
  let ?p = "JObj [(''userId'', JStr ''5''), (''userPresenceType'', JInt 2), (''placeId'', JInt 10),
                  (''gameId'', JInt 20), (''universeId'', JInt 99)]"
  have h: "subscript ?p ''userId'' = Inr (JStr ''5'')"
    "dict_get ?p ''placeId'' JNull = Inr (JInt 10)"
    "dict_get ?p ''gameId'' JNull = Inr (JInt 20)"
    by simp_all
  have s: "py_str (JInt 10) = ''10''" "py_str (JInt 20) = ''20''" by code_simp+
  from join_link_iff_both_ids_true[OF h, of "JStr ''Obby''" "JStr ''bob''" "JStr ''Bob''"]
  show ?thesis using h s by auto
qed

text \<open>
  C3 as stated fails: a record with both ids present, the place id being 0, gets the
  private-join variant.
\<close>

theorem zero_place_id_has_no_join_link:
  "subscript (JObj [(''userId'', JInt 5), (''userPresenceType'', JInt 2), (''placeId'', JInt 0),
                    (''gameId'', JStr ''abc'')]) ''placeId'' = Inr (JInt 0)
   \<and> subscript (JObj [(''userId'', JInt 5), (''userPresenceType'', JInt 2), (''placeId'', JInt 0),
                    (''gameId'', JStr ''abc'')]) ''gameId'' = Inr (JStr ''abc'')
   \<and> build_embed_in_game
        (JObj [(''userId'', JInt 5), (''userPresenceType'', JInt 2), (''placeId'', JInt 0),
               (''gameId'', JStr ''abc'')])
        (JStr ''Obby'') (JStr ''bob'') (JStr ''Bob'')
      = Inr (JObj [(''title'', JStr ''Bob is in a game''), (''color'', JInt 0x00FFFF),
                   (''description'', JStr ''Joins are off, check badges for hint of game.'')])"
  by code_simp

section \<open>The title when the profile fetch fails\<close>

text \<open>
  C6 on the code. During the outage the profile fetch fails and returns
  \<^verbatim>\<open>(None, None)\<close>. For user 5 in a game the notification is emitted, but its title is
  \<^verbatim>\<open>None is in a game\<close> (without the ids) or \<^verbatim>\<open>None is now in-game\<close> (with them):
  \<^verbatim>\<open>build_embed_in_game\<close> reads \<^verbatim>\<open>user_id\<close> and formats
  \<^verbatim>\<open>display_name or username\<close> without it. The Offline branch, with
  \<^verbatim>\<open>display_name or username or user_id\<close>, gives \<^verbatim>\<open>5 is Offline\<close>.
\<close>

theorem in_game_title_ignores_user_id:
  "(case main_body net_outage plain_session start
           (JObj [(''userId'', JInt 5), (''userPresenceType'', JInt 2), (''universeId'', JInt 99)]) of
      Inl e \<Rightarrow> False
    | Inr st' \<Rightarrow> notifications st' =
        [webhook_post (JObj [(''title'', JStr ''None is in a game''), (''color'', JInt 0x00FFFF),
           (''description'', JStr ''Joins are off, check badges for hint of game.'')])])
   \<and> (case main_body net_outage plain_session start
           (JObj [(''userId'', JInt 5), (''userPresenceType'', JInt 2), (''placeId'', JInt 10),
                  (''gameId'', JInt 20)]) of
      Inl e \<Rightarrow> False
    | Inr st' \<Rightarrow> notifications st' =
        [webhook_post (JObj
           [(''title'', JStr ''None is now in-game''),
            (''color'', JInt 0x00FF00),
            (''description'', JStr ''**Unknown Game**''),
            (''url'', JStr ''https://www.roblox.com/games/start?placeId=10&gameId=20''),
            (''fields'', JList
               [JObj [(''name'', JStr ''Join Server''),
                      (''value'', JStr ''[Click Here](https://www.roblox.com/games/start?placeId=10&gameId=20)''),
                      (''inline'', JBool True)],
                JObj [(''name'', JStr ''Game Page''),
                      (''value'', JStr ''[View Game](https://www.roblox.com/games/10)''),
                      (''inline'', JBool True)]])])])
   \<and> (case main_body net_outage plain_session start
           (JObj [(''userId'', JInt 5), (''userPresenceType'', JInt 0)]) of
      Inl e \<Rightarrow> False
    | Inr st' \<Rightarrow> notifications st' =
        [webhook_post (JObj [(''title'', JStr ''5 is Offline''), (''color'', JInt 0xFF0000)])])"
  by code_simp


section \<open>The fallbacks of the fetchers\<close>

text \<open>
  C7. When the call fails at the network or HTTP level, the presence fetch returns the
  empty list, the game-name fetch \<^verbatim>\<open>Unknown Game\<close> and the profile fetch
  \<^verbatim>\<open>(None, None)\<close>: each returns, none raises. The game-name fetch also returns
  \<^verbatim>\<open>Unknown Game\<close> for a body whose \<^verbatim>\<open>data\<close> is the empty list or is missing.
\<close>

theorem fetchers_fall_back:
  "(http_failure (net (length (http_log st)) (presence_request s ids))
      \<longrightarrow> (\<exists>st1. get_presence net s ids st = Inr (JList [], st1)))
   \<and> (http_failure (net (length (http_log st)) (games_request s v))
      \<longrightarrow> (\<exists>st1. get_game_info net s v st = Inr (JStr ''Unknown Game'', st1)))
   \<and> (http_failure (net (length (http_log st)) (users_request s u))
      \<longrightarrow> (\<exists>st1. get_user_info net s u st = Inr ((JNull, JNull), st1)))
   \<and> (checked_json (net2 (length (http_log st)) (games_request s v)) = Some (JObj kvs)
        \<and> (map_of kvs ''data'' = Some (JList []) \<or> map_of kvs ''data'' = None)
      \<longrightarrow> (\<exists>st1. get_game_info net2 s v st = Inr (JStr ''Unknown Game'', st1)))"
  by (auto simp: get_presence_def get_game_info_def get_user_info_def http_call_def
      dest!: http_failure_checked_json)

text \<open>The theorem on the network that is down, and on a reply with an empty \<^verbatim>\<open>data\<close>.\<close>

theorem fetchers_fall_back_witness:
  "http_failure (net_down (length (http_log start)) (presence_request plain_session (JList [JStr ''5''])))
   \<and> http_failure (net_down (length (http_log start)) (games_request plain_session (JInt 99)))
   \<and> http_failure (net_down (length (http_log start)) (users_request plain_session ''5''))
   \<and> checked_json
        (net_reply (JObj [(''data'', JList [])]) (length (http_log start))
           (games_request plain_session (JInt 99)))
      = Some (JObj [(''data'', JList [])])
   \<and> map_of [(''data'', JList [])] ''data'' = Some (JList [])
   \<and> (\<exists>st1. get_presence net_down plain_session (JList [JStr ''5'']) start = Inr (JList [], st1))
   \<and> (\<exists>st1. get_game_info net_down plain_session (JInt 99) start = Inr (JStr ''Unknown Game'', st1))
   \<and> (\<exists>st1. get_user_info net_down plain_session ''5'' start = Inr ((JNull, JNull), st1))
   \<and> (\<exists>st1. get_game_info (net_reply (JObj [(''data'', JList [])])) plain_session (JInt 99) start
               = Inr (JStr ''Unknown Game'', st1))"
proof -
  have f: "http_failure (net_down i rq)" for i rq
    by (simp add: http_failure_def net_down_def)
  have c: "checked_json
        (net_reply (JObj [(''data'', JList [])]) (length (http_log start))
           (games_request plain_session (JInt 99)))
      = Some (JObj [(''data'', JList [])])"
    by (simp add: checked_json_def net_reply_def)
  have m: "map_of [(''data'', JList [])] ''data'' = Some (JList [])" by simp
  from fetchers_fall_back[of net_down start plain_session "JList [JStr ''5'']" "JInt 99" "''5''"
      "net_reply (JObj [(''data'', JList [])])" "[(''data'', JList [])]"]
  show ?thesis using f c m by blast
qed

section \<open>A pass with an empty batch\<close>

text \<open>
  C8. When the batch fetch yields the empty list, the pass ends in the state the fetch
  left: the table is the one before and no notification was emitted. A fetch that fails
  yields the empty list.
\<close>

theorem empty_batch_changes_nothing:
  "(get_presence net s ids st = Inr (JList [], st1)
      \<longrightarrow> main_cycle net s ids st = Inr st1
          \<and> last_states st1 = last_states st
          \<and> notifications st1 = notifications st)
   \<and> (http_failure (net (length (http_log st)) (presence_request s ids))
      \<longrightarrow> (\<exists>st'. get_presence net s ids st = Inr (JList [], st')))"
proof (rule conjI; rule impI)
  assume g: "get_presence net s ids st = Inr (JList [], st1)"
  then show "main_cycle net s ids st = Inr st1
          \<and> last_states st1 = last_states st \<and> notifications st1 = notifications st"
    using get_presence_effect[OF g] by (simp add: main_cycle_def)
next
  assume "http_failure (net (length (http_log st)) (presence_request s ids))"
  then show "\<exists>st'. get_presence net s ids st = Inr (JList [], st')"
    by (auto simp: get_presence_def http_call_def dest!: http_failure_checked_json)
qed

text \<open>
  The theorem with user 5 known as online and the network down: the entry is still 1
  after the pass.
\<close>

theorem empty_batch_changes_nothing_witness:
  "get_presence net_down plain_session (JList [JStr ''5'']) seen_online
     = Inr (JList [],
            logging ERROR (''Presence fetch failed ('' @ PRESENCE_URL @ ''): '')
              (seen_online\<lparr>http_log := [presence_request plain_session (JList [JStr ''5''])]\<rparr>))
   \<and> http_failure (net_down (length (http_log seen_online))
         (presence_request plain_session (JList [JStr ''5''])))
   \<and> (\<exists>st'. main_cycle net_down plain_session (JList [JStr ''5'']) seen_online = Inr st'
          \<and> last_states st' = last_states seen_online
          \<and> last_states st' ''5'' = Some (JInt 1)
          \<and> notifications st' = notifications seen_online)"
proof -
  let ?ids = "JList [JStr ''5'']"
  let ?st1 = "logging ERROR (''Presence fetch failed ('' @ PRESENCE_URL @ ''): '')
              (seen_online\<lparr>http_log := [presence_request plain_session ?ids]\<rparr>)"
  have g: "get_presence net_down plain_session ?ids seen_online = Inr (JList [], ?st1)"
    by (simp add: get_presence_def http_call_def net_down_def checked_json_def
        seen_online_def start_def)
  have f: "http_failure (net_down (length (http_log seen_online))
         (presence_request plain_session ?ids))"
    by (simp add: http_failure_def net_down_def)
  have t: "last_states seen_online ''5'' = Some (JInt 1)"
    by (simp add: seen_online_def)
  from empty_batch_changes_nothing[of net_down plain_session ?ids seen_online ?st1]
  show ?thesis using g f t by auto
qed

section \<open>A record without a state\<close>

text \<open>
  What holds of such a record. A record with a user id and no \<^verbatim>\<open>userPresenceType\<close>
  is read as state 0. On a network whose replies make no fetcher raise, when 0 differs
  from the entry of the user, the profile is fetched, exactly one notification is
  emitted, the Offline one, and the entry becomes 0; when it does not, nothing changes.
\<close>

lemma missing_state_is_offline:
  assumes "replies_ok net"
    and "subscript presence ''userId'' = Inr uid"
    and "subscript presence ''userPresenceType'' = Inl KeyError"
  shows "dict_get presence ''userPresenceType'' (JInt 0) = Inr (JInt 0)
     \<and> (if py_ne (JInt 0) (last_state st (py_str uid)) then
          \<exists>username display_name st1 st'.
            get_user_info net s (py_str uid) st = Inr ((username, display_name), st1)
            \<and> main_body net s st presence = Inr st'
            \<and> notifications st'
                = notifications st @
                  [webhook_post
                     (JObj [(''title'', JStr (py_str (py_or display_name
                               (py_or username (JStr (py_str uid)))) @ '' is Offline'')),
                            (''color'', JInt 0xFF0000)])]
            \<and> last_states st' = (last_states st)(py_str uid \<mapsto> JInt 0)
        else main_body net s st presence = Inr st)"
proof -
  from assms(2) obtain kvs where p: "presence = JObj kvs" by (rule subscript_Inr_obj)
  with assms(3) have state: "dict_get presence ''userPresenceType'' (JInt 0) = Inr (JInt 0)"
    by (auto split: option.splits)
  show ?thesis
  proof (cases "py_ne (JInt 0) (last_state st (py_str uid))")
    case False
    with state assms(2) show ?thesis by (simp add: main_body_def)
  next
    case True
    from assms(1) have "user_reply_ok (net (length (http_log st)) (users_request s (py_str uid)))"
      by (simp add: replies_ok_def)
    then obtain un dn st1 where info: "get_user_info net s (py_str uid) st = Inr ((un, dn), st1)"
      using get_user_info_returns by fastforce
    then have st1: "last_states st1 = last_states st" "notifications st1 = notifications st"
      using get_user_info_effect by blast+
    define e where "e = JObj [(''title'', JStr (py_str (py_or dn (py_or un (JStr (py_str uid))))
                                 @ '' is Offline'')), (''color'', JInt 0xFF0000)]"
    from True state assms(2) info st1 have "main_body net s st presence
        = Inr ((send_webhook net e st1)\<lparr>last_states := (last_states st)(py_str uid \<mapsto> JInt 0)\<rparr>)"
      by (simp add: main_body_def Let_def e_def)
    with True state info st1 show ?thesis
      by (simp add: e_def)
  qed
qed

text \<open>The lemma with user 5 known as online: \<^verbatim>\<open>Bob is Offline\<close>, and the entry is 0.\<close>

lemma missing_state_is_offline_witness:
  "replies_ok net_up
   \<and> subscript (JObj [(''userId'', JInt 5)]) ''userId'' = Inr (JInt 5)
   \<and> subscript (JObj [(''userId'', JInt 5)]) ''userPresenceType'' = Inl KeyError
   \<and> py_ne (JInt 0) (last_state seen_online (py_str (JInt 5)))
   \<and> (case main_body net_up plain_session seen_online (JObj [(''userId'', JInt 5)]) of
        Inl e \<Rightarrow> False
      | Inr st' \<Rightarrow>
          notifications st'
            = [webhook_post (JObj [(''title'', JStr ''Bob is Offline''), (''color'', JInt 0xFF0000)])]
          \<and> last_states st' ''5'' = Some (JInt 0))"
proof -
  let ?p = "JObj [(''userId'', JInt 5)]"
  have ok: "replies_ok net_up" by (rule replies_ok_net_up)
  have h: "subscript ?p ''userId'' = Inr (JInt 5)"
    "subscript ?p ''userPresenceType'' = Inl KeyError" by simp_all
  have ne: "py_ne (JInt 0) (last_state seen_online (py_str (JInt 5)))" by code_simp
  have run: "(case main_body net_up plain_session seen_online ?p of
        Inl e \<Rightarrow> False
      | Inr st' \<Rightarrow>
          notifications st'
            = [webhook_post (JObj [(''title'', JStr ''Bob is Offline''), (''color'', JInt 0xFF0000)])]
          \<and> last_states st' ''5'' = Some (JInt 0))"
    by code_simp
  from missing_state_is_offline[OF ok h, where s = plain_session and st = seen_online]
  show ?thesis using ok h ne run by blast
qed

text \<open>
  C9 on the code. The record is read as state 0, but the Offline notification and the
  update depend on the profile fetch. User 5 is known as online, the record has no
  \<^verbatim>\<open>userPresenceType\<close>, and the users endpoint answers 200 with a JSON list: 0
  differs from the entry, \<^verbatim>\<open>get_user_info\<close> raises \<^verbatim>\<open>AttributeError\<close>, the loop
  ends with it, no notification is emitted and the entry is not set to 0.
\<close>

theorem shape_error_skips_offline_notification:
  "subscript (JObj [(''userId'', JInt 5)]) ''userPresenceType'' = Inl KeyError
   \<and> dict_get (JObj [(''userId'', JInt 5)]) ''userPresenceType'' (JInt 0) = Inr (JInt 0)
   \<and> last_states seen_online ''5'' = Some (JInt 1)
   \<and> py_ne (JInt 0) (last_state seen_online ''5'')
   \<and> main_body net_users_list plain_session seen_online (JObj [(''userId'', JInt 5)])
       = Inl AttributeError
   \<and> main_for net_users_list plain_session seen_online [JObj [(''userId'', JInt 5)]]
       = Inl AttributeError"
proof (intro conjI)
  show "subscript (JObj [(''userId'', JInt 5)]) ''userPresenceType'' = Inl KeyError" by simp
  show "dict_get (JObj [(''userId'', JInt 5)]) ''userPresenceType'' (JInt 0) = Inr (JInt 0)"
    by simp
  show "last_states seen_online ''5'' = Some (JInt 1)" by (simp add: seen_online_def)
  show "py_ne (JInt 0) (last_state seen_online ''5'')" by code_simp
  show "main_body net_users_list plain_session seen_online (JObj [(''userId'', JInt 5)])
       = Inl AttributeError"
    by (rule raisesI) code_simp
  show "main_for net_users_list plain_session seen_online [JObj [(''userId'', JInt 5)]]
       = Inl AttributeError"
    by (rule raisesI) code_simp
qed

section \<open>Users that are not in the batch\<close>

lemma user_of_SomeD:
  assumes "user_of p = Some v"
  obtains uid where "subscript p ''userId'' = Inr uid" and "v = py_str uid"
  using assms by (auto simp: user_of_def split: sum.splits)

lemma main_body_other_users:
  assumes ok: "replies_ok net" and v: "user_of p = Some v"
  shows "\<exists>st1 new. main_body net s st p = Inr st1
           \<and> (\<forall>u. u \<noteq> v \<longrightarrow> last_states st1 u = last_states st u)
           \<and> notifications st1 = notifications st @ new"
proof -
  from v obtain uid where uid: "subscript p ''userId'' = Inr uid" and vu: "v = py_str uid"
    by (rule user_of_SomeD)
  from uid obtain kvs where "p = JObj kvs" by (rule subscript_Inr_obj)
  then obtain state where state: "dict_get p ''userPresenceType'' (JInt 0) = Inr state"
    by (cases "map_of kvs ''userPresenceType''") auto
  show ?thesis
  proof (cases "py_ne state (last_state st (py_str uid))")
    case True
    from main_body_changed[OF uid state True ok, of s] obtain st2 new where
      "main_body net s st p = Inr (st2\<lparr>last_states := (last_states st)(py_str uid \<mapsto> state)\<rparr>)"
      "notifications st2 = notifications st @ new"
      by blast
    with vu show ?thesis by auto
  next
    case False
    with uid state have "main_body net s st p = Inr st" by (rule main_body_same)
    then show ?thesis by simp
  qed
qed

lemma main_for_absent_user:
  assumes ok: "replies_ok net"
    and others: "\<forall>p\<in>set ps. \<exists>v. user_of p = Some v \<and> v \<noteq> u"
  shows "\<exists>st'. main_for net s st ps = Inr st'
           \<and> last_states st' u = last_states st u
           \<and> length (notifications st')
               = length (notifications st) + length (notified_users net s st ps)
           \<and> u \<notin> set (notified_users net s st ps)"
  using others
proof (induction ps arbitrary: st)
  case Nil
  then show ?case by simp
next
  case (Cons p ps)
  then obtain v where v: "user_of p = Some v" "v \<noteq> u" by auto
  from main_body_other_users[OF ok v(1), of s st] obtain st1 new where b:
    "main_body net s st p = Inr st1"
    "last_states st1 u = last_states st u"
    "notifications st1 = notifications st @ new"
    using v(2) by auto
  from Cons.prems have "\<forall>p\<in>set ps. \<exists>v. user_of p = Some v \<and> v \<noteq> u" by simp
  from Cons.IH[OF this, of st1] obtain st' where r:
    "main_for net s st1 ps = Inr st'"
    "last_states st' u = last_states st1 u"
    "length (notifications st')
       = length (notifications st1) + length (notified_users net s st1 ps)"
    "u \<notin> set (notified_users net s st1 ps)"
    by blast
  with b v show ?case by auto
qed

text \<open>
  C10. When every record of the batch has a user id and none is \<open>u\<close>, the pass ends
  (on replies that make no fetcher raise), the entry of \<open>u\<close> is the one before, and
  no notification of the pass is about \<open>u\<close>: the notifications emitted are as many as
  \<open>notified_users\<close> lists, each sent in the turn of a record of another user.
\<close>

theorem absent_user_untouched:
  assumes "replies_ok net"
    and "get_presence net s ids st = Inr (presences, st1)"
    and "py_iter presences = Inr records"
    and "\<forall>p\<in>set records. \<exists>v. user_of p = Some v \<and> v \<noteq> u"
  shows "\<exists>st'. main_cycle net s ids st = Inr st'
           \<and> last_states st' u = last_states st u
           \<and> length (notifications st')
               = length (notifications st) + length (notified_users net s st1 records)
           \<and> u \<notin> set (notified_users net s st1 records)"
proof -
  from main_for_absent_user[OF assms(1,4), of s st1] obtain st' where
    "main_for net s st1 records = Inr st'"
    "last_states st' u = last_states st1 u"
    "length (notifications st')
       = length (notifications st1) + length (notified_users net s st1 records)"
    "u \<notin> set (notified_users net s st1 records)"
    by blast
  with assms(2,3) get_presence_effect[OF assms(2)] show ?thesis
    by (simp add: main_cycle_def)
qed

text \<open>
  The theorem with users 5 and 7 tracked and only 5 in the batch: one notification,
  about 5, and the entry of 7 is still 2.
\<close>

theorem absent_user_untouched_witness:
  "replies_ok net_up
   \<and> get_presence net_up plain_session (JList [JStr ''5'', JStr ''7'']) seen_two
       = Inr (JList [JObj [(''userId'', JInt 5), (''userPresenceType'', JInt 1)]],
              seen_two\<lparr>http_log := [presence_request plain_session (JList [JStr ''5'', JStr ''7''])]\<rparr>)
   \<and> py_iter (JList [JObj [(''userId'', JInt 5), (''userPresenceType'', JInt 1)]])
       = Inr [JObj [(''userId'', JInt 5), (''userPresenceType'', JInt 1)]]
   \<and> user_of (JObj [(''userId'', JInt 5), (''userPresenceType'', JInt 1)]) = Some ''5''
   \<and> notified_users net_up plain_session
        (seen_two\<lparr>http_log := [presence_request plain_session (JList [JStr ''5'', JStr ''7''])]\<rparr>)
        [JObj [(''userId'', JInt 5), (''userPresenceType'', JInt 1)]] = [''5'']
   \<and> (\<exists>st'. main_cycle net_up plain_session (JList [JStr ''5'', JStr ''7'']) seen_two = Inr st'
          \<and> last_states st' ''7'' = Some (JInt 2)
          \<and> length (notifications st') = length (notifications seen_two) + 1)"
proof -
  let ?ids = "JList [JStr ''5'', JStr ''7'']"
  let ?p = "JObj [(''userId'', JInt 5), (''userPresenceType'', JInt 1)]"
  let ?st1 = "seen_two\<lparr>http_log := [presence_request plain_session ?ids]\<rparr>"
  have ok: "replies_ok net_up" by (rule replies_ok_net_up)
  have g: "get_presence net_up plain_session ?ids seen_two = Inr (JList [?p], ?st1)"
    by (simp add: get_presence_def http_call_def net_up_def checked_json_def
        seen_two_def start_def presence_request_def)
  have i: "py_iter (JList [?p]) = Inr [?p]" by simp
  have u: "user_of ?p = Some ''5''" by code_simp
  have o: "\<forall>p\<in>set [?p]. \<exists>v. user_of p = Some v \<and> v \<noteq> ''7''" using u by simp
  have n: "notified_users net_up plain_session ?st1 [?p] = [''5'']" by code_simp
  have t: "last_states seen_two ''7'' = Some (JInt 2)" by (simp add: seen_two_def)
  from absent_user_untouched[OF ok g i o]
  show ?thesis using ok g i u n t by auto
qed

section \<open>Replies of an unexpected shape\<close>

text \<open>
  C4 on the code. The fetchers catch \<^verbatim>\<open>requests.RequestException\<close> only. A presence
  record without \<^verbatim>\<open>userId\<close> raises \<^verbatim>\<open>KeyError\<close> in the loop body; a
  \<^verbatim>\<open>userPresences\<close> that is a number raises \<^verbatim>\<open>TypeError\<close> at the \<^verbatim>\<open>for\<close>; a
  body that is a JSON list raises \<^verbatim>\<open>AttributeError\<close> inside \<^verbatim>\<open>get_presence\<close>, and
  inside \<^verbatim>\<open>get_user_info\<close> when a record is processed; a \<^verbatim>\<open>data\<close> entry that is
  no object raises it inside \<^verbatim>\<open>get_game_info\<close>. Each ends \<^verbatim>\<open>main\<close>.
\<close>

theorem malformed_reply_ends_the_process:
  "main 1 (net_reply (JObj [(''userPresences'', JList [JObj [(''userPresenceType'', JInt 1)]])]))
       (Some (JList [JStr ''5''])) = Inl KeyError
   \<and> main 1 (net_reply (JObj [(''userPresences'', JInt 5)])) (Some (JList [JStr ''5'']))
       = Inl TypeError
   \<and> main 1 (net_reply (JList [])) (Some (JList [JStr ''5''])) = Inl AttributeError
   \<and> main_body (net_reply (JList [])) plain_session start
        (JObj [(''userId'', JInt 5), (''userPresenceType'', JInt 1)]) = Inl AttributeError
   \<and> get_game_info (net_reply (JObj [(''data'', JList [JInt 5])])) plain_session (JInt 99) start
       = Inl AttributeError"
proof (intro conjI)
  show "main 1 (net_reply (JObj [(''userPresences'', JList [JObj [(''userPresenceType'', JInt 1)]])]))
       (Some (JList [JStr ''5''])) = Inl KeyError"
    by (rule raisesI) code_simp
  show "main 1 (net_reply (JObj [(''userPresences'', JInt 5)])) (Some (JList [JStr ''5'']))
       = Inl TypeError"
    by (rule raisesI) code_simp
  show "main 1 (net_reply (JList [])) (Some (JList [JStr ''5''])) = Inl AttributeError"
    by (rule raisesI) code_simp
  show "main_body (net_reply (JList [])) plain_session start
        (JObj [(''userId'', JInt 5), (''userPresenceType'', JInt 1)]) = Inl AttributeError"
    by (rule raisesI) code_simp
  show "get_game_info (net_reply (JObj [(''data'', JList [JInt 5])])) plain_session (JInt 99) start
       = Inl AttributeError"
    by (rule raisesI) code_simp
qed

section \<open>Which calls are under the retry policy\<close>

lemma expected_calls [simp]:
  "expected_call (webhook_post e)"
  "mounted s \<Longrightarrow> expected_call (seed_request s h)"
  "mounted s \<Longrightarrow> expected_call (presence_request s ids)"
  "mounted s \<Longrightarrow> expected_call (users_request s u)"
  "mounted s \<Longrightarrow> expected_call (games_request s v)"
  by (auto simp: expected_call_def)

lemma main_in_game_calls:
  assumes "mounted s" and "list_all expected_call (http_log st)"
    and "main_in_game net s p un dn st = Inr st'"
  shows "list_all expected_call (http_log st')"
  using assms
  by (auto simp: main_in_game_def split: sum.splits if_splits
      dest!: get_game_info_effect(2))

lemma main_body_calls:
  assumes "mounted s" and "list_all expected_call (http_log st)"
    and "main_body net s st p = Inr st'"
  shows "list_all expected_call (http_log st')"
proof (cases "subscript p ''userId''")
  case (Inl e)
  with assms(3) show ?thesis by (simp add: main_body_def)
next
  case uid: (Inr uid)
  show ?thesis
  proof (cases "dict_get p ''userPresenceType'' (JInt 0)")
    case (Inl e)
    with uid assms(3) show ?thesis by (simp add: main_body_def)
  next
    case state: (Inr state)
    show ?thesis
    proof (cases "py_ne state (last_state st (py_str uid))")
      case False
      with uid state assms(2,3) show ?thesis by (simp add: main_body_def)
    next
      case True
      with uid state assms(3) obtain un dn st1 where
        info: "get_user_info net s (py_str uid) st = Inr ((un, dn), st1)"
        by (auto simp: main_body_def Let_def split: sum.splits)
      from get_user_info_effect(2)[OF info] assms(1,2)
      have l1: "list_all expected_call (http_log st1)" by simp
      from uid state True info assms(3) l1 assms(1) show ?thesis
        by (auto simp: main_body_def Let_def split: sum.splits if_splits
            dest: main_in_game_calls)
    qed
  qed
qed

lemma main_for_calls:
  assumes "mounted s"
  shows "list_all expected_call (http_log st) \<Longrightarrow> main_for net s st ps = Inr st'
         \<Longrightarrow> list_all expected_call (http_log st')"
proof (induction ps arbitrary: st)
  case Nil
  then show ?case by simp
next
  case (Cons p ps)
  then obtain st1 where b: "main_body net s st p = Inr st1" and r: "main_for net s st1 ps = Inr st'"
    by (auto split: sum.splits)
  from main_body_calls[OF assms Cons.prems(1) b] r show ?case
    by (rule Cons.IH)
qed

lemma main_cycle_calls:
  assumes "mounted s" and "list_all expected_call (http_log st)"
    and "main_cycle net s ids st = Inr st'"
  shows "list_all expected_call (http_log st')"
proof -
  from assms(3) obtain ps st1 rs where g: "get_presence net s ids st = Inr (ps, st1)"
    and f: "main_for net s st1 rs = Inr st'"
    by (auto simp: main_cycle_def split: sum.splits)
  from get_presence_effect(2)[OF g] assms(1,2)
  have "list_all expected_call (http_log st1)" by simp
  with assms(1) f show ?thesis using main_for_calls by blast
qed

lemma main_loop_calls:
  assumes "mounted s"
  shows "list_all expected_call (http_log st) \<Longrightarrow> main_loop n net s ids st = Inr st'
         \<Longrightarrow> list_all expected_call (http_log st')"
proof (induction n arbitrary: st)
  case 0
  then show ?case by simp
next
  case (Suc n)
  then obtain st1 where c: "main_cycle net s ids st = Inr st1"
    and r: "main_loop n net s ids st1 = Inr st'"
    by (auto split: sum.splits)
  from main_cycle_calls[OF assms Suc.prems(1) c] r show ?case
    by (rule Suc.IH)
qed

lemma create_authenticated_session_calls:
  assumes "create_authenticated_session net start = (s, st1)"
  shows "mounted s" and "list_all expected_call (http_log st1)"
  using assms
  by (auto simp: create_authenticated_session_def http_call_def start_def mounted_def Let_def
      logging_def expected_call_def seed_request_def
      split: response.splits option.splits if_splits)

text \<open>
  C5, as the code has it. After any number of passes of \<^verbatim>\<open>main\<close>, every call issued
  is one of five: the seed request, the presence fetch, the profile fetch and the
  game-name fetch, each through a session on whose two prefixes the adapter with
  \<^verbatim>\<open>Retry(total=3, backoff_factor=1, status_forcelist=[429, 500, 502, 503, 504],
  allowed_methods=["HEAD", "GET", "OPTIONS", "POST"])\<close> is mounted; or the POST of
  \<^verbatim>\<open>send_webhook\<close>, issued by \<^verbatim>\<open>requests.post\<close> outside every session of the
  program and so not under that policy.
\<close>

theorem session_calls_under_retry_policy:
  assumes "main n net file = Inr st"
  shows "list_all expected_call (http_log st)
     \<and> (\<forall>e. \<not> under_retry_policy (webhook_post e))
     \<and> retry_strategy
         = \<lparr>retry_total = 3, backoff_factor = 1, status_forcelist = [429, 500, 502, 503, 504],
            allowed_methods = [HEAD, GET, OPTIONS, POST]\<rparr>"
proof -
  obtain s st1 where c: "create_authenticated_session net start = (s, st1)"
    by (cases "create_authenticated_session net start")
  note m = create_authenticated_session_calls[OF c]
  obtain ids st2 where l: "load_user_ids file st1 = (ids, st2)"
    by (cases "load_user_ids file st1")
  then have h2: "http_log st2 = http_log st1"
    by (auto simp: load_user_ids_def split: option.splits)
  have "list_all expected_call (http_log st)"
  proof (cases "truthy ids")
    case False
    with assms c l h2 m(2) show ?thesis by (auto simp: main_def)
  next
    case True
    with assms c l have "main_loop n net s ids
        (logging INFO (''Roblox Activity Tracker is now running'' @ [CHR 0xE2, CHR 0x80, CHR 0xA6])
           (st2\<lparr>last_states := Map.empty\<rparr>)) = Inr st"
      by (simp add: main_def)
    moreover have "list_all expected_call (http_log
        (logging INFO (''Roblox Activity Tracker is now running'' @ [CHR 0xE2, CHR 0x80, CHR 0xA6])
           (st2\<lparr>last_states := Map.empty\<rparr>)))"
      using h2 m(2) by simp
    ultimately show ?thesis using main_loop_calls[OF m(1)] by blast
  qed
  then show ?thesis
    by (simp add: under_retry_policy_def retry_strategy_def)
qed

text \<open>
  The theorem on one pass with user 5 first seen online: four calls, the first three
  (seed, presence, profile) under the policy.
\<close>

theorem session_calls_under_retry_policy_witness:
  "\<exists>st. main 1 net_up (Some (JList [JStr ''5''])) = Inr st
        \<and> length (http_log st) = 4
        \<and> list_all expected_call (http_log st)
        \<and> list_all under_retry_policy (take 3 (http_log st))"
proof -
  have "case main 1 net_up (Some (JList [JStr ''5''])) of Inl e \<Rightarrow> False
        | Inr st \<Rightarrow> length (http_log st) = 4
            \<and> list_all under_retry_policy (take 3 (http_log st))"
    by code_simp
  then obtain st where r: "main 1 net_up (Some (JList [JStr ''5''])) = Inr st"
    "length (http_log st) = 4" "list_all under_retry_policy (take 3 (http_log st))"
    by (cases "main 1 net_up (Some (JList [JStr ''5'']))") auto
  from session_calls_under_retry_policy[OF r(1)] r show ?thesis by blast
qed

text \<open>
  C5 as stated fails: in that pass the fourth call is the POST to the sink, and it is
  issued through no session and under no retry policy.
\<close>

theorem webhook_post_has_no_retry_policy:
  "case main 1 net_up (Some (JList [JStr ''5''])) of
     Inl e \<Rightarrow> False
   | Inr st \<Rightarrow>
       last (http_log st)
         = webhook_post (JObj [(''title'', JStr ''Bob is Online (not in-game)''),
                               (''color'', JInt 0xFFFF00)])
       \<and> via (last (http_log st)) = None
       \<and> \<not> under_retry_policy (last (http_log st))"
  by code_simp

end
